theory Spec2Isabelle
  imports Complex_Main
begin

section \<open>Session provider: the useAuth hook\<close>

text \<open>
  The hook keeps one state object \<open>{user, loading, initialized, error}\<close> and a
  closure variable \<open>mounted\<close>. A \<open>User\<close> is identified by its id. The state is
  written in three places only: the two branches of \<open>getInitialSession\<close> and the
  callback given to \<open>onAuthStateChange\<close>; each write is guarded by \<open>mounted\<close>.
\<close>

type_synonym User = string

record authState =
  user :: "User option"
  loading :: bool
  initialized :: bool
  error :: "string option"

record hook =
  authState :: authState
  mounted :: bool

text \<open>
  What a \<open>catch\<close> clause can receive: an \<open>Error\<close> instance with its message, or
  any other thrown value.
\<close>

datatype thrown = ErrorInstance string | OtherValue

definition initialAuthState :: authState where
  "initialAuthState = \<lparr>user = None, loading = True, initialized = False, error = None\<rparr>"

definition mount :: hook where
  "mount = \<lparr>authState = initialAuthState, mounted = True\<rparr>"

text \<open>
  \<open>getInitialSession\<close> once \<open>supabase.auth.getUser(token)\<close> has settled. The argument
  is \<open>Inr data.user\<close> when no \<open>authError\<close> came back, and \<open>Inl e\<close> for the value that
  reaches the \<open>catch\<close> clause (the \<open>authError\<close> thrown by the \<open>try\<close> block, or a
  rejection of the awaited call).
\<close>

definition getInitialSession :: "thrown + User option \<Rightarrow> hook \<Rightarrow> hook" where
  "getInitialSession settled h =
     (case settled of
        Inr data_user \<Rightarrow>
          (if mounted h
           then h\<lparr>authState := \<lparr>user = data_user, loading = False,
                                 initialized = True, error = None\<rparr>\<rparr>
           else h)
      | Inl e \<Rightarrow>
          (if mounted h
           then h\<lparr>authState := \<lparr>user = None, loading = False, initialized = True,
                                 error = Some (case e of ErrorInstance m \<Rightarrow> m
                                                 | OtherValue \<Rightarrow> ''Authentication error'')\<rparr>\<rparr>
           else h))"

text \<open>
  The callback of \<open>onAuthStateChange\<close>; its argument is \<open>session?.user ?? null\<close>.
  It spreads the current state and overwrites three fields.
\<close>

definition onAuthStateChange :: "User option \<Rightarrow> hook \<Rightarrow> hook" where
  "onAuthStateChange session_user h =
     (if mounted h
      then h\<lparr>authState := (authState h)\<lparr>user := session_user, loading := False,
                                          initialized := True\<rparr>\<rparr>
      else h)"

text \<open>The cleanup function of the effect.\<close>

definition cleanup :: "hook \<Rightarrow> hook" where
  "cleanup h = h\<lparr>mounted := False\<rparr>"

text \<open>The object the hook returns to its consumers.\<close>

record authView =
  view_user :: "User option"
  view_loading :: bool
  view_error :: "string option"
  isInitialized :: bool

definition useAuth :: "authState \<Rightarrow> authView" where
  "useAuth a =
     \<lparr>view_user = (if initialized a then user a else None),
      view_loading = loading a,
      view_error = error a,
      isInitialized = initialized a\<rparr>"

text \<open>
  What can happen to a mounted hook, in any order: the initial fetch settles, the
  backend pushes a session change, the component unmounts.
\<close>

datatype authEvent =
    InitialSessionSettled "thrown + User option"
  | AuthStateChange "User option"
  | Cleanup

fun step :: "hook \<Rightarrow> authEvent \<Rightarrow> hook" where
  "step h (InitialSessionSettled r) = getInitialSession r h"
| "step h (AuthStateChange u) = onAuthStateChange u h"
| "step h Cleanup = cleanup h"

definition run :: "authEvent list \<Rightarrow> hook" where
  "run es = foldl step mount es"

text \<open>Whether the initial fetch has settled within a history of events.\<close>

fun isFetch :: "authEvent \<Rightarrow> bool" where
  "isFetch (InitialSessionSettled r) = True"
| "isFetch (AuthStateChange u) = False"
| "isFetch Cleanup = False"

definition fetchResolved :: "authEvent list \<Rightarrow> bool" where
  "fetchResolved es = list_ex isFetch es"

section \<open>Access guard: the AuthGuard component\<close>

datatype rendered = Spinner | Children | Nothing

text \<open>
  The body of the effect: the list of destinations handed to \<open>navigate\<close>.
\<close>

definition guardEffect :: "authView \<Rightarrow> string list" where
  "guardEffect v =
     (if \<not> view_loading v \<and> view_user v = None \<and> \<not> isInitialized v
      then [''/login''] else [])"

definition guardRender :: "authView \<Rightarrow> rendered" where
  "guardRender v =
     (if view_loading v then Spinner
      else (case view_user v of Some u \<Rightarrow> Children | None \<Rightarrow> Nothing))"

text \<open>
  One evaluation of the component: the navigations issued and what is rendered.
  React runs the effect after the first render and after a render in which one of
  the dependencies \<open>[user, loading, navigate]\<close> changed; \<open>effectRuns\<close> says whether
  this is such a render.
\<close>

definition AuthGuard :: "bool \<Rightarrow> authView \<Rightarrow> string list \<times> rendered" where
  "AuthGuard effectRuns v = ((if effectRuns then guardEffect v else []), guardRender v)"

section \<open>JavaScript numbers and parseFloat\<close>

text \<open>
  The numeric fields of a form are read with the built-in \<open>parseFloat\<close>. A number
  is \<open>NaN\<close>, an infinity, or a finite value. The finite value is kept as the exact
  rational the decimal literal denotes: the rounding to the nearest double (and so
  the overflow of a huge literal to an infinity, and the sign of zero) is left
  out. Rounding never turns a number into \<open>NaN\<close> nor \<open>NaN\<close> into a number, so
  whether a string parses is exact. Strings are sequences of 8-bit characters, so
  of the white space of ECMAScript only the Latin-1 part is recognised.
\<close>

datatype number = NaN | PosInfinity | NegInfinity | Finite rat

definition isWhiteSpace :: "char \<Rightarrow> bool" where
  "isWhiteSpace c = ((of_char c :: nat) \<in> {9, 10, 11, 12, 13, 32, 160})"

definition isDigit :: "char \<Rightarrow> bool" where
  "isDigit c = (48 \<le> (of_char c :: nat) \<and> (of_char c :: nat) \<le> 57)"

definition digitsValue :: "string \<Rightarrow> nat" where
  "digitsValue ds = foldl (\<lambda>acc c. 10 * acc + ((of_char c :: nat) - 48)) 0 ds"

text \<open>An optional sign: whether it is a minus, and the rest of the string.\<close>

fun signPart :: "string \<Rightarrow> bool \<times> string" where
  "signPart [] = (False, [])"
| "signPart (c # r) =
     (if c = CHR ''-'' then (True, r)
      else if c = CHR ''+'' then (False, r)
      else (False, c # r))"

text \<open>
  The value of the \<open>ExponentPart\<close> a string starts with: \<open>e\<close> or \<open>E\<close>, an optional
  sign and at least one digit. Anything else is not part of the literal.
\<close>

fun exponentPart :: "string \<Rightarrow> int" where
  "exponentPart [] = 0"
| "exponentPart (c # r) =
     (if c = CHR ''e'' \<or> c = CHR ''E''
      then (let (neg, d) = signPart r; ds = takeWhile isDigit d
            in if ds = [] then 0
               else if neg then - int (digitsValue ds) else int (digitsValue ds))
      else 0)"

definition scale10 :: "nat \<Rightarrow> int \<Rightarrow> rat" where
  "scale10 m e = (if 0 \<le> e then of_nat m * 10 ^ nat e else of_nat m / 10 ^ nat (- e))"

text \<open>
  \<open>parseFloat\<close>: skip leading white space, then take the longest prefix that is a
  \<open>StrDecimalLiteral\<close> (a sign, then \<open>Infinity\<close> or digits with an optional
  fraction and exponent); \<open>NaN\<close> when there is no such prefix.
\<close>

definition parseFloat :: "string \<Rightarrow> number" where
  "parseFloat s =
     (let (neg, u) = signPart (dropWhile isWhiteSpace s)
      in if take 8 u = ''Infinity'' then (if neg then NegInfinity else PosInfinity)
         else
           (let ip = takeWhile isDigit u;
                r1 = dropWhile isDigit u;
                (fp, r2) = (case r1 of
                              [] \<Rightarrow> ([], r1)
                            | c # r \<Rightarrow> (if c = CHR ''.''
                                        then (takeWhile isDigit r, dropWhile isDigit r)
                                        else ([], r1)))
            in if ip = [] \<and> fp = [] then NaN
               else (let q = scale10 (digitsValue (ip @ fp))
                                     (exponentPart r2 - int (length fp))
                     in Finite (if neg then - q else q))))"

section \<open>Backend calls, form data and the environment\<close>

type_synonym url = string
type_synonym File = string

text \<open>
  A value in an object sent to the record store. \<open>FormData.get\<close> gives the first
  value stored under a name, or \<open>null\<close>.
\<close>

datatype jsvalue = Null | Str string | Number number | Array "url list"

type_synonym payload = "(string \<times> jsvalue) list"
type_synonym formData = "(string \<times> string) list"

definition formGet :: "formData \<Rightarrow> string \<Rightarrow> jsvalue" where
  "formGet fd name = (case map_of fd name of None \<Rightarrow> Null | Some s \<Rightarrow> Str s)"

text \<open>
  \<open>parseFloat(formData.get(name) as string)\<close>: the cast does nothing at run time and
  \<open>parseFloat\<close> applies \<open>ToString\<close> to its argument, which is \<open>"null"\<close> for a
  missing field.
\<close>

definition formNumber :: "formData \<Rightarrow> string \<Rightarrow> number" where
  "formNumber fd name =
     parseFloat (case map_of fd name of None \<Rightarrow> ''null'' | Some s \<Rightarrow> s)"

text \<open>
  The requests a manager issues, in the order it issues them: the four record-store
  requests (\<open>select\<close> with its column list, order column and \<open>ascending\<close> flag;
  \<open>insert\<close> of a list of rows; \<open>update\<close> and \<open>delete\<close> matched by \<open>id\<close>) and the two
  calls to the image helpers. Every request is awaited before the handler goes on,
  except inside a \<open>Promise.all\<close>, whose requests are all issued before any is
  awaited.
\<close>

datatype call =
    Select string string string bool
  | Insert string "payload list"
  | Update string payload string
  | Delete string string
  | UploadImage File string string
  | DeleteImage string url

text \<open>What the object storage answers to the removal of an object.\<close>

datatype storageReply = Removed | NotFound | StorageFailure string

text \<open>
  The answers of the collaborators, fixed for one run of a handler. An error is its
  message. \<open>uploadImage\<close> is the helper of \<open>utils/imageUpload\<close>, taken as given: the
  URL it returns for a file, or the message it rejects with.
\<close>

record 'row env =
  selectReply :: "string \<Rightarrow> string + 'row list"
  insertReply :: "string \<Rightarrow> payload list \<Rightarrow> string option"
  updateReply :: "string \<Rightarrow> payload \<Rightarrow> string \<Rightarrow> string option"
  deleteReply :: "string \<Rightarrow> string \<Rightarrow> string option"
  uploadImage :: "File \<Rightarrow> string \<Rightarrow> string \<Rightarrow> string + url"
  storageRemove :: "string \<Rightarrow> url \<Rightarrow> storageReply"
  confirm :: bool

text \<open>
  Modelled from the spec: \<open>deleteImage\<close> of \<open>utils/imageUpload\<close>, which is not among
  the sources. The spec has \<open>remove(namespace, URL)\<close> delete the stored object and
  be idempotent: an object that is already absent is not an error. The promise is
  fulfilled (\<open>Inr\<close>) in both cases and rejected (\<open>Inl\<close>) when the storage fails.
\<close>

definition deleteImage :: "'row env \<Rightarrow> string \<Rightarrow> url \<Rightarrow> string + unit" where
  "deleteImage env namespace u =
     (case storageRemove env namespace u of
        Removed \<Rightarrow> Inr ()
      | NotFound \<Rightarrow> Inr ()
      | StorageFailure m \<Rightarrow> Inl m)"

text \<open>
  \<open>await Promise.all(ps)\<close> on promises that have all been started: the list of
  values when every promise is fulfilled, otherwise a rejection. The reason kept is
  that of the first rejected promise of the list (JavaScript keeps the one that is
  rejected first in time).
\<close>

fun promiseAll :: "(string + 'a) list \<Rightarrow> string + 'a list" where
  "promiseAll [] = Inr []"
| "promiseAll (Inl m # ps) = Inl m"
| "promiseAll (Inr v # ps) = (case promiseAll ps of Inl m \<Rightarrow> Inl m | Inr vs \<Rightarrow> Inr (v # vs))"

text \<open>\<open>Array.prototype.find\<close>: the first element satisfying the predicate, if any.\<close>

fun find_first :: "('a \<Rightarrow> bool) \<Rightarrow> 'a list \<Rightarrow> 'a option" where
  "find_first P [] = None"
| "find_first P (x # xs) = (if P x then Some x else find_first P xs)"

text \<open>
  The message of the \<open>TypeError\<close> raised by reading \<open>.images\<close> of \<open>undefined\<close>.
\<close>

definition undefinedImagesMessage :: string where
  "undefinedImagesMessage = ''Cannot read properties of undefined (reading 'images')''"

text \<open>
  The owner key of an upload path: \<open>editing?.id || 'new'\<close>, where an absent draft
  and an empty id both give \<open>'new'\<close>.
\<close>

definition ownerKey :: "string option \<Rightarrow> string" where
  "ownerKey i = (case i of None \<Rightarrow> ''new'' | Some s \<Rightarrow> (if s = [] then ''new'' else s))"

section \<open>The PropertiesManager component\<close>

datatype propType = Resale | PrimarySale | Rental

fun typeString :: "propType \<Rightarrow> string" where
  "typeString Resale = ''resale''"
| "typeString PrimarySale = ''primary-sale''"
| "typeString Rental = ''rental''"

definition tableName :: "propType \<Rightarrow> string" where
  "tableName t = typeString t @ ''_properties''"

record Property =
  prop_id :: string
  builder_name :: string
  project :: string
  location :: string
  prop_size :: string
  price :: number
  images :: "url list"

record propertiesState =
  properties :: "Property list"
  prop_loading :: bool
  prop_error :: "string option"
  editingProperty :: "Property option"
  showForm :: bool

text \<open>
  Every handler returns the requests it issued, in order, and the component state
  after it.
\<close>

definition fetchProperties ::
  "Property env \<Rightarrow> propType \<Rightarrow> propertiesState \<Rightarrow> call list \<times> propertiesState" where
  "fetchProperties env t st =
     ([Select (tableName t) ''*'' ''created_at'' False],
      (case selectReply env (tableName t) of
         Inr data \<Rightarrow> st\<lparr>properties := data, prop_loading := False\<rparr>
       | Inl m \<Rightarrow> st\<lparr>prop_error := Some m, prop_loading := False\<rparr>))"

definition propertyData :: "formData \<Rightarrow> Property option \<Rightarrow> payload" where
  "propertyData fd editing =
     [(''builder_name'', formGet fd ''builder_name''),
      (''project'', formGet fd ''project''),
      (''location'', formGet fd ''location''),
      (''size'', formGet fd ''size''),
      (''price'', Number (formNumber fd ''price'')),
      (''images'', Array (case editing of Some e \<Rightarrow> images e | None \<Rightarrow> []))]"

definition handleSubmit ::
  "Property env \<Rightarrow> propType \<Rightarrow> propertiesState \<Rightarrow> formData \<Rightarrow> call list \<times> propertiesState" where
  "handleSubmit env t st fd =
     (let st1 = st\<lparr>prop_error := None\<rparr>;
          pd = propertyData fd (editingProperty st)
      in case editingProperty st of
           Some e \<Rightarrow>
             (case updateReply env (tableName t) pd (prop_id e) of
                Some m \<Rightarrow> ([Update (tableName t) pd (prop_id e)], st1\<lparr>prop_error := Some m\<rparr>)
              | None \<Rightarrow>
                  (let (cs, st2) = fetchProperties env t st1
                   in (Update (tableName t) pd (prop_id e) # cs,
                       st2\<lparr>showForm := False, editingProperty := None\<rparr>)))
         | None \<Rightarrow>
             (case insertReply env (tableName t) [pd] of
                Some m \<Rightarrow> ([Insert (tableName t) [pd]], st1\<lparr>prop_error := Some m\<rparr>)
              | None \<Rightarrow>
                  (let (cs, st2) = fetchProperties env t st1
                   in (Insert (tableName t) [pd] # cs,
                       st2\<lparr>showForm := False, editingProperty := None\<rparr>))))"

text \<open>
  The result of the \<open>update\<close> that persists the images is not inspected by the
  handlers below.
\<close>

definition handleImageUpload ::
  "Property env \<Rightarrow> propType \<Rightarrow> propertiesState \<Rightarrow> File list \<Rightarrow> call list \<times> propertiesState" where
  "handleImageUpload env t st files =
     (let path = typeString t @ ''/'' @ ownerKey (map_option prop_id (editingProperty st));
          uploads = map (\<lambda>f. UploadImage f ''properties'' path) files
      in case promiseAll (map (\<lambda>f. uploadImage env f ''properties'' path) files) of
           Inl m \<Rightarrow> (uploads, st\<lparr>prop_error := Some m\<rparr>)
         | Inr urls \<Rightarrow>
             (case editingProperty st of
                Some e \<Rightarrow>
                  (let updatedImages = images e @ urls
                   in (uploads @ [Update (tableName t) [(''images'', Array updatedImages)] (prop_id e)],
                       st\<lparr>editingProperty := Some (e\<lparr>images := updatedImages\<rparr>)\<rparr>))
              | None \<Rightarrow> (uploads, st)))"

definition handleImageDelete ::
  "Property env \<Rightarrow> propType \<Rightarrow> propertiesState \<Rightarrow> url \<Rightarrow> call list \<times> propertiesState" where
  "handleImageDelete env t st u =
     (case deleteImage env ''properties'' u of
        Inl m \<Rightarrow> ([DeleteImage ''properties'' u], st\<lparr>prop_error := Some m\<rparr>)
      | Inr _ \<Rightarrow>
          (case editingProperty st of
             Some e \<Rightarrow>
               (let updatedImages = filter (\<lambda>img. img \<noteq> u) (images e)
                in ([DeleteImage ''properties'' u,
                     Update (tableName t) [(''images'', Array updatedImages)] (prop_id e)],
                    st\<lparr>editingProperty := Some (e\<lparr>images := updatedImages\<rparr>)\<rparr>))
           | None \<Rightarrow> ([DeleteImage ''properties'' u], st)))"

definition handleDelete ::
  "Property env \<Rightarrow> propType \<Rightarrow> propertiesState \<Rightarrow> string \<Rightarrow> call list \<times> propertiesState" where
  "handleDelete env t st i =
     (if \<not> confirm env then ([], st)
      else case find_first (\<lambda>p. prop_id p = i) (properties st) of
             None \<Rightarrow> ([], st\<lparr>prop_error := Some undefinedImagesMessage\<rparr>)
           | Some property \<Rightarrow>
               (let removals = map (DeleteImage ''properties'') (images property)
                in case promiseAll (map (deleteImage env ''properties'') (images property)) of
                     Inl m \<Rightarrow> (removals, st\<lparr>prop_error := Some m\<rparr>)
                   | Inr _ \<Rightarrow>
                       (case deleteReply env (tableName t) i of
                          Some m \<Rightarrow> (removals @ [Delete (tableName t) i], st\<lparr>prop_error := Some m\<rparr>)
                        | None \<Rightarrow>
                            (let (cs, st2) = fetchProperties env t st
                             in (removals @ [Delete (tableName t) i] @ cs, st2)))))"

section \<open>The PlotsManager component\<close>

record Plot =
  plot_id :: string
  plot_builder_name :: string
  plot_project :: string
  plot_location :: string
  price_per_sqft :: number
  total_price :: number
  plot_images :: "url list"

record plotsState =
  plots :: "Plot list"
  plot_loading :: bool
  plot_error :: "string option"
  editingPlot :: "Plot option"
  plot_showForm :: bool

definition fetchPlots :: "Plot env \<Rightarrow> plotsState \<Rightarrow> call list \<times> plotsState" where
  "fetchPlots env st =
     ([Select ''plots'' ''*'' ''created_at'' False],
      (case selectReply env ''plots'' of
         Inr data \<Rightarrow> st\<lparr>plots := data, plot_loading := False\<rparr>
       | Inl m \<Rightarrow> st\<lparr>plot_error := Some m, plot_loading := False\<rparr>))"

definition plotData :: "formData \<Rightarrow> Plot option \<Rightarrow> payload" where
  "plotData fd editing =
     [(''builder_name'', formGet fd ''builder_name''),
      (''project'', formGet fd ''project''),
      (''location'', formGet fd ''location''),
      (''price_per_sqft'', Number (formNumber fd ''price_per_sqft'')),
      (''total_price'', Number (formNumber fd ''total_price'')),
      (''images'', Array (case editing of Some e \<Rightarrow> plot_images e | None \<Rightarrow> []))]"

definition handleSubmit_plots :: "Plot env \<Rightarrow> plotsState \<Rightarrow> formData \<Rightarrow> call list \<times> plotsState" where
  "handleSubmit_plots env st fd =
     (let st1 = st\<lparr>plot_error := None\<rparr>;
          pd = plotData fd (editingPlot st)
      in case editingPlot st of
           Some e \<Rightarrow>
             (case updateReply env ''plots'' pd (plot_id e) of
                Some m \<Rightarrow> ([Update ''plots'' pd (plot_id e)], st1\<lparr>plot_error := Some m\<rparr>)
              | None \<Rightarrow>
                  (let (cs, st2) = fetchPlots env st1
                   in (Update ''plots'' pd (plot_id e) # cs,
                       st2\<lparr>plot_showForm := False, editingPlot := None\<rparr>)))
         | None \<Rightarrow>
             (case insertReply env ''plots'' [pd] of
                Some m \<Rightarrow> ([Insert ''plots'' [pd]], st1\<lparr>plot_error := Some m\<rparr>)
              | None \<Rightarrow>
                  (let (cs, st2) = fetchPlots env st1
                   in (Insert ''plots'' [pd] # cs,
                       st2\<lparr>plot_showForm := False, editingPlot := None\<rparr>))))"

definition handleImageUpload_plots ::
  "Plot env \<Rightarrow> plotsState \<Rightarrow> File list \<Rightarrow> call list \<times> plotsState" where
  "handleImageUpload_plots env st files =
     (let path = ownerKey (map_option plot_id (editingPlot st));
          uploads = map (\<lambda>f. UploadImage f ''plots'' path) files
      in case promiseAll (map (\<lambda>f. uploadImage env f ''plots'' path) files) of
           Inl m \<Rightarrow> (uploads, st\<lparr>plot_error := Some m\<rparr>)
         | Inr urls \<Rightarrow>
             (case editingPlot st of
                Some e \<Rightarrow>
                  (let updatedImages = plot_images e @ urls
                   in (uploads @ [Update ''plots'' [(''images'', Array updatedImages)] (plot_id e)],
                       st\<lparr>editingPlot := Some (e\<lparr>plot_images := updatedImages\<rparr>)\<rparr>))
              | None \<Rightarrow> (uploads, st)))"

definition handleImageDelete_plots :: "Plot env \<Rightarrow> plotsState \<Rightarrow> url \<Rightarrow> call list \<times> plotsState" where
  "handleImageDelete_plots env st u =
     (case deleteImage env ''plots'' u of
        Inl m \<Rightarrow> ([DeleteImage ''plots'' u], st\<lparr>plot_error := Some m\<rparr>)
      | Inr _ \<Rightarrow>
          (case editingPlot st of
             Some e \<Rightarrow>
               (let updatedImages = filter (\<lambda>img. img \<noteq> u) (plot_images e)
                in ([DeleteImage ''plots'' u,
                     Update ''plots'' [(''images'', Array updatedImages)] (plot_id e)],
                    st\<lparr>editingPlot := Some (e\<lparr>plot_images := updatedImages\<rparr>)\<rparr>))
           | None \<Rightarrow> ([DeleteImage ''plots'' u], st)))"

definition handleDelete_plots :: "Plot env \<Rightarrow> plotsState \<Rightarrow> string \<Rightarrow> call list \<times> plotsState" where
  "handleDelete_plots env st i =
     (if \<not> confirm env then ([], st)
      else case find_first (\<lambda>p. plot_id p = i) (plots st) of
             None \<Rightarrow> ([], st\<lparr>plot_error := Some undefinedImagesMessage\<rparr>)
           | Some plot \<Rightarrow>
               (let removals = map (DeleteImage ''plots'') (plot_images plot)
                in case promiseAll (map (deleteImage env ''plots'') (plot_images plot)) of
                     Inl m \<Rightarrow> (removals, st\<lparr>plot_error := Some m\<rparr>)
                   | Inr _ \<Rightarrow>
                       (case deleteReply env ''plots'' i of
                          Some m \<Rightarrow> (removals @ [Delete ''plots'' i], st\<lparr>plot_error := Some m\<rparr>)
                        | None \<Rightarrow>
                            (let (cs, st2) = fetchPlots env st
                             in (removals @ [Delete ''plots'' i] @ cs, st2)))))"

section \<open>The record store's update and sample data\<close>

text \<open>
  A stored row maps column names to values. The record store is an external
  service; its \<open>update(partial).eq('id', i)\<close>, an update by a partial record as
  the spec describes it, overwrites in the matched row the columns the partial
  object names and keeps the others.
\<close>

type_synonym row = "string \<Rightarrow> jsvalue option"

definition applyUpdate :: "payload \<Rightarrow> row \<Rightarrow> row" where
  "applyUpdate pl r = (\<lambda>k. case map_of pl k of Some v \<Rightarrow> Some v | None \<Rightarrow> r k)"

text \<open>Whether a request is a call of \<open>uploadImage\<close>.\<close>

fun isUpload :: "call \<Rightarrow> bool" where
  "isUpload (UploadImage f n k) = True"
| "isUpload c = False"

text \<open>
  Sample data: a cooperative environment in which every request succeeds, the
  object \<open>U2\<close> is already absent from the storage and an upload of file \<open>f\<close>
  returns the URL \<open>cdn/f\<close>; one stored record of each kind; forms as a user
  would fill them in.
\<close>

definition demoEnv :: "'row env" where
  "demoEnv =
     \<lparr>selectReply = (\<lambda>tb. Inr []),
      insertReply = (\<lambda>tb rows. None),
      updateReply = (\<lambda>tb pl i. None),
      deleteReply = (\<lambda>tb i. None),
      uploadImage = (\<lambda>f n k. Inr (''cdn/'' @ f)),
      storageRemove = (\<lambda>n u. if u = ''U2'' then NotFound else Removed),
      confirm = True\<rparr>"

definition demoProperty :: Property where
  "demoProperty =
     \<lparr>prop_id = ''R1'', builder_name = ''Acme'', project = ''Skyview'',
      location = ''Lakeview'', prop_size = ''1200'', price = Finite 1000000,
      images = [''U1'', ''U2'']\<rparr>"

definition demoState :: propertiesState where
  "demoState =
     \<lparr>properties = [demoProperty], prop_loading = False, prop_error = None,
      editingProperty = None, showForm = True\<rparr>"

definition demoEditing :: propertiesState where
  "demoEditing = demoState\<lparr>editingProperty := Some demoProperty\<rparr>"

definition demoPlot :: Plot where
  "demoPlot =
     \<lparr>plot_id = ''P1'', plot_builder_name = ''Acme'', plot_project = ''Greenfield'',
      plot_location = ''Lakeview'', price_per_sqft = Finite 2500,
      total_price = Finite 3000000, plot_images = [''U1'', ''U2'']\<rparr>"

definition demoPlots :: plotsState where
  "demoPlots =
     \<lparr>plots = [demoPlot], plot_loading = False, plot_error = None,
      editingPlot = None, plot_showForm = True\<rparr>"

definition demoPlotEditing :: plotsState where
  "demoPlotEditing = demoPlots\<lparr>editingPlot := Some demoPlot\<rparr>"

definition demoForm :: formData where
  "demoForm =
     [(''builder_name'', ''Acme''), (''project'', ''Skyview''), (''location'', ''Lakeview''),
      (''size'', ''1200''), (''price'', ''1000000'')]"

definition abcForm :: formData where
  "abcForm =
     [(''builder_name'', ''Acme''), (''project'', ''Skyview''), (''location'', ''Lakeview''),
      (''size'', ''1200''), (''price'', ''abc'')]"


definition abcPlotForm :: formData where
  "abcPlotForm =
     [(''builder_name'', ''Acme''), (''project'', ''Greenfield''), (''location'', ''Lakeview''),
      (''price_per_sqft'', ''2500''), (''total_price'', ''abc'')]"

text \<open>
  Variants of the sample environment: the storage fails every removal; the upload
  of the file \<open>b.png\<close> is rejected; every insert is answered with an error; the
  storage fails the removal of \<open>U1\<close> and reports every other object as already
  absent.
\<close>

definition failingStorageEnv :: "'row env" where
  "failingStorageEnv = demoEnv\<lparr>storageRemove := (\<lambda>n u. StorageFailure ''storage down'')\<rparr>"

definition failingUploadEnv :: "'row env" where
  "failingUploadEnv =
     demoEnv\<lparr>uploadImage := (\<lambda>f n k. if f = ''b.png'' then Inl ''upload failed''
                                      else Inr (''cdn/'' @ f))\<rparr>"


definition mixedStorageEnv :: "'row env" where
  "mixedStorageEnv =
     demoEnv\<lparr>storageRemove := (\<lambda>n u. if u = ''U1'' then StorageFailure ''storage down''
                                        else NotFound)\<rparr>"

text \<open>
  Whether a request leaves every column of every record other than \<open>images\<close> as it
  is: an \<open>update\<close> that names the column \<open>images\<close> and no other, or a request
  that writes no record.
\<close>

fun touchesOnlyImages :: "call \<Rightarrow> bool" where
  "touchesOnlyImages (Update tb pl i) = (map fst pl = [''images''])"
| "touchesOnlyImages (Insert tb rows) = False"
| "touchesOnlyImages (Delete tb i) = False"
| "touchesOnlyImages (Select tb cols col asc) = True"
| "touchesOnlyImages (UploadImage f n k) = True"
| "touchesOnlyImages (DeleteImage n u) = True"

section \<open>The forms and their submission\<close>

text \<open>
  Both components render \<open><form onSubmit={handleSubmit}>\<close> without \<open>noValidate\<close>,
  and every control of it carries \<open>required\<close>; the numeric ones are
  \<open>type="number"\<close>. So \<open>handleSubmit\<close> runs only on the submit event, which
  the browser fires after the controls have passed its constraint validation, and
  \<open>new FormData(form)\<close> holds the values of the controls, not the raw text typed.
\<close>

datatype inputType = TextInput | NumberInput

record inputElement =
  inputType :: inputType
  inputName :: string
  required :: bool

definition propertyInputs :: "inputElement list" where
  "propertyInputs =
     [\<lparr>inputType = TextInput, inputName = ''builder_name'', required = True\<rparr>,
      \<lparr>inputType = TextInput, inputName = ''project'', required = True\<rparr>,
      \<lparr>inputType = TextInput, inputName = ''location'', required = True\<rparr>,
      \<lparr>inputType = TextInput, inputName = ''size'', required = True\<rparr>,
      \<lparr>inputType = NumberInput, inputName = ''price'', required = True\<rparr>]"

definition plotInputs :: "inputElement list" where
  "plotInputs =
     [\<lparr>inputType = TextInput, inputName = ''builder_name'', required = True\<rparr>,
      \<lparr>inputType = TextInput, inputName = ''project'', required = True\<rparr>,
      \<lparr>inputType = TextInput, inputName = ''location'', required = True\<rparr>,
      \<lparr>inputType = NumberInput, inputName = ''price_per_sqft'', required = True\<rparr>,
      \<lparr>inputType = NumberInput, inputName = ''total_price'', required = True\<rparr>]"

text \<open>
  HTML's "valid floating-point number", the only non-empty values a number control
  can hold: an optional minus, digits or a fraction (a full stop and digits) or
  both, and an optional exponent (\<open>e\<close> or \<open>E\<close>, an optional sign, digits).
\<close>

fun validExponent :: "string \<Rightarrow> bool" where
  "validExponent [] = True"
| "validExponent (c # r) =
     ((c = CHR ''e'' \<or> c = CHR ''E'')
      \<and> snd (signPart r) \<noteq> [] \<and> list_all isDigit (snd (signPart r)))"

definition validUnsigned :: "string \<Rightarrow> bool" where
  "validUnsigned u =
     (let ip = takeWhile isDigit u;
          r1 = dropWhile isDigit u
      in case r1 of
           [] \<Rightarrow> ip \<noteq> []
         | c # r \<Rightarrow>
             (if c = CHR ''.''
              then takeWhile isDigit r \<noteq> [] \<and> validExponent (dropWhile isDigit r)
              else ip \<noteq> [] \<and> validExponent r1))"

definition validFloatingPointNumber :: "string \<Rightarrow> bool" where
  "validFloatingPointNumber s =
     validUnsigned (case s of [] \<Rightarrow> [] | c # r \<Rightarrow> (if c = CHR ''-'' then r else s))"

text \<open>
  The value of a control, given the text put into it (value sanitization): a text
  control drops line breaks, a number control holds the text when it is a valid
  floating-point number and the empty string otherwise.
\<close>

definition controlValue :: "inputElement \<Rightarrow> (string \<Rightarrow> string) \<Rightarrow> string" where
  "controlValue el typed =
     (case inputType el of
        TextInput \<Rightarrow> filter (\<lambda>c. c \<noteq> CHR 0x0A \<and> c \<noteq> CHR 0x0D) (typed (inputName el))
      | NumberInput \<Rightarrow> (if validFloatingPointNumber (typed (inputName el))
                        then typed (inputName el) else []))"

text \<open>
  Constraint validation: a required control with an empty value is invalid. The
  step of a number control (whole steps from its initial value) can make further
  values invalid; it is left out, so the submissions let through here include all
  those a browser lets through.
\<close>

definition satisfiesConstraints :: "inputElement \<Rightarrow> (string \<Rightarrow> string) \<Rightarrow> bool" where
  "satisfiesConstraints el typed = (\<not> (required el \<and> controlValue el typed = []))"

text \<open>
  Submitting a form: no submit event when a control is invalid, otherwise the event
  with the form's entries, one per control in document order.
\<close>

definition submitEvent :: "inputElement list \<Rightarrow> (string \<Rightarrow> string) \<Rightarrow> formData option" where
  "submitEvent els typed =
     (if list_all (\<lambda>el. satisfiesConstraints el typed) els
      then Some (map (\<lambda>el. (inputName el, controlValue el typed)) els)
      else None)"

definition submitPropertyForm ::
  "Property env \<Rightarrow> propType \<Rightarrow> propertiesState \<Rightarrow> (string \<Rightarrow> string)
     \<Rightarrow> call list \<times> propertiesState" where
  "submitPropertyForm env t st typed =
     (case submitEvent propertyInputs typed of
        None \<Rightarrow> ([], st)
      | Some fd \<Rightarrow> handleSubmit env t st fd)"

definition submitPlotForm ::
  "Plot env \<Rightarrow> plotsState \<Rightarrow> (string \<Rightarrow> string) \<Rightarrow> call list \<times> plotsState" where
  "submitPlotForm env st typed =
     (case submitEvent plotInputs typed of
        None \<Rightarrow> ([], st)
      | Some fd \<Rightarrow> handleSubmit_plots env st fd)"

text \<open>Whether a request to the record store carries \<open>NaN\<close> in some field.\<close>

fun carriesNaN :: "call \<Rightarrow> bool" where
  "carriesNaN (Insert tb rows) = list_ex (\<lambda>pl. Number NaN \<in> snd ` set pl) rows"
| "carriesNaN (Update tb pl i) = (Number NaN \<in> snd ` set pl)"
| "carriesNaN (Select tb cols col asc) = False"
| "carriesNaN (Delete tb i) = False"
| "carriesNaN (UploadImage f n k) = False"
| "carriesNaN (DeleteImage n u) = False"

text \<open>The text typed into each control, read off a list of name and text pairs.\<close>

definition typedFrom :: "(string \<times> string) list \<Rightarrow> string \<Rightarrow> string" where
  "typedFrom entries name = (case map_of entries name of None \<Rightarrow> [] | Some s \<Rightarrow> s)"

section \<open>Object storage and sequences of image additions\<close>

text \<open>
  Modelled from the spec: \<open>uploadImage\<close> of \<open>utils/imageUpload\<close>, which is not among
  the sources. The spec has \<open>upload(file, namespace, ownerKey)\<close> store the file
  under a path derived from the namespace and the owner key and return the URL that
  addresses the stored object, and it has the images of a record de-duplicated by
  construction. So every fulfilled call stores a new object: the storage is the
  list of the URLs of the objects it holds, how a URL is derived from the file, the
  namespace and the owner key is left open (a parameter of the definitions
  below), and a call whose URL already addresses a stored object is rejected and
  stores nothing.
\<close>

type_synonym storage = "url list"











section \<open>Properties of the session provider\<close>

lemma foldl_step_unmounted:
  "\<not> mounted h \<Longrightarrow> foldl step h es = h\<lparr>mounted := False\<rparr>"
proof (induction es arbitrary: h)
  case Nil
  then show ?case by simp
next
  case (Cons e es)
  have "step h e = h\<lparr>mounted := False\<rparr>"
    using Cons.prems
    by (cases e) (simp_all add: getInitialSession_def onAuthStateChange_def cleanup_def
                           split: sum.splits)
  moreover have "\<not> mounted (h\<lparr>mounted := False\<rparr>)" by simp
  ultimately show ?case using Cons.IH [of "h\<lparr>mounted := False\<rparr>"] by simp
qed

lemma step_initialized:
  "initialized (authState h) \<Longrightarrow> initialized (authState (step h e))"
  by (cases e)
     (auto simp: getInitialSession_def onAuthStateChange_def cleanup_def split: sum.splits)

lemma foldl_step_initialized:
  "initialized (authState h) \<Longrightarrow> initialized (authState (foldl step h es))"
  by (induction es arbitrary: h) (simp_all add: step_initialized)

lemma step_loading_initialized:
  "loading (authState h) = (\<not> initialized (authState h)) \<Longrightarrow>
   loading (authState (step h e)) = (\<not> initialized (authState (step h e)))"
  by (cases e)
     (auto simp: getInitialSession_def onAuthStateChange_def cleanup_def split: sum.splits)

lemma run_snoc: "run (es @ [e]) = step (run es) e"
  by (simp add: run_def)

lemma run_loading_initialized:
  "loading (authState (run es)) = (\<not> initialized (authState (run es)))"
proof (induction es rule: rev_induct)
  case Nil
  show ?case by (simp add: run_def mount_def initialAuthState_def)
next
  case (snoc e es)
  then show ?case unfolding run_snoc by (rule step_loading_initialized)
qed

lemma first_event_initializes:
  "e \<noteq> Cleanup \<Longrightarrow> initialized (authState (step mount e))"
  by (cases e)
     (simp_all add: mount_def getInitialSession_def onAuthStateChange_def split: sum.splits)

lemma run_initialized_iff:
  "initialized (authState (run es)) = (es \<noteq> [] \<and> hd es \<noteq> Cleanup)"
proof (cases es)
  case Nil
  then show ?thesis by (simp add: run_def mount_def initialAuthState_def)
next
  case (Cons e es')
  show ?thesis
  proof (cases "e = Cleanup")
    case True
    have "\<not> mounted (cleanup mount)" by (simp add: cleanup_def)
    then have "foldl step (cleanup mount) es' = (cleanup mount)\<lparr>mounted := False\<rparr>"
      by (rule foldl_step_unmounted)
    then show ?thesis
      using Cons True by (simp add: run_def cleanup_def mount_def initialAuthState_def)
  next
    case False
    then have "initialized (authState (foldl step (step mount e) es'))"
      by (intro foldl_step_initialized first_event_initializes)
    then show ?thesis using Cons False by (simp add: run_def)
  qed
qed

lemma exposed_user_initialized:
  "view_user (useAuth a) = Some u \<Longrightarrow> initialized a"
  by (simp add: useAuth_def split: if_splits)

text \<open>
  C7 (as amended). In every state the hook can reach, consumers see a user only when
  \<open>initialized\<close> is true, and any state with \<open>initialized\<close> false shows them no user
  whatever the \<open>user\<close> field holds. \<open>initialized\<close> is true as soon as the first event
  has been handled while mounted, be it the settling of the initial fetch or a
  session-change notification.
\<close>

theorem exposed_user_only_when_initialized:
  "(view_user (useAuth (authState (run es))) = Some u \<longrightarrow> initialized (authState (run es)))
   \<and> (\<not> initialized a \<longrightarrow> view_user (useAuth a) = None)
   \<and> (initialized (authState (run es)) = (es \<noteq> [] \<and> hd es \<noteq> Cleanup))"
proof (intro conjI impI)
  assume "view_user (useAuth (authState (run es))) = Some u"
  then show "initialized (authState (run es))" by (rule exposed_user_initialized)
next
  assume "\<not> initialized a"
  then show "view_user (useAuth a) = None" by (simp add: useAuth_def)
next
  show "initialized (authState (run es)) = (es \<noteq> [] \<and> hd es \<noteq> Cleanup)"
    by (rule run_initialized_iff)
qed

theorem exposed_user_only_when_initialized_witness:
  "view_user (useAuth (authState (run [AuthStateChange (Some ''u1'')]))) = Some ''u1''
   \<and> initialized (authState (run [AuthStateChange (Some ''u1'')]))
   \<and> \<not> initialized (initialAuthState\<lparr>user := Some ''u1''\<rparr>)
   \<and> view_user (useAuth (initialAuthState\<lparr>user := Some ''u1''\<rparr>)) = None"
  using exposed_user_only_when_initialized
          [of "[AuthStateChange (Some ''u1'')]" "''u1''" "initialAuthState\<lparr>user := Some ''u1''\<rparr>"]
  by (simp add: run_def mount_def initialAuthState_def onAuthStateChange_def useAuth_def)

text \<open>
  C7 as the spec words it fails: a session-change notification that is handled
  before the initial fetch has settled already exposes its user.
\<close>

theorem exposed_before_fetch_counterexample:
  "\<not> fetchResolved [AuthStateChange (Some ''u1'')]
   \<and> view_user (useAuth (authState (run [AuthStateChange (Some ''u1'')]))) = Some ''u1''"
  by (simp add: fetchResolved_def run_def mount_def initialAuthState_def
                onAuthStateChange_def useAuth_def)

section \<open>Properties of the access guard\<close>

lemma guardEffect_reachable: "guardEffect (useAuth (authState (run es))) = []"
  using run_loading_initialized [of es] by (simp add: guardEffect_def useAuth_def)

text \<open>
  C2. For a session that is not loading, has no user and is initialized, the guard
  navigates nowhere and renders nothing. While loading it renders the spinner and
  navigates nowhere. With a user and not loading it renders the children; in a
  state the hook can reach a user is only ever exposed when not loading. The
  redirect needs \<open>isInitialized\<close> false together with \<open>loading\<close> false, which no
  reachable state has, so no reachable state makes the guard navigate.
\<close>

theorem guard_behaviour:
  "(\<not> view_loading v \<and> view_user v = None \<and> isInitialized v \<longrightarrow> AuthGuard r v = ([], Nothing))
   \<and> (view_loading v \<longrightarrow> AuthGuard r v = ([], Spinner))
   \<and> (\<not> view_loading v \<and> view_user v = Some u \<longrightarrow> AuthGuard r v = ([], Children))
   \<and> (view_user (useAuth (authState (run es))) = Some u \<longrightarrow>
        AuthGuard r (useAuth (authState (run es))) = ([], Children))
   \<and> (\<not> view_loading (useAuth (authState (run es))) \<longrightarrow>
        isInitialized (useAuth (authState (run es))))
   \<and> fst (AuthGuard r (useAuth (authState (run es)))) = []"
proof (intro conjI impI)
  assume "\<not> view_loading v \<and> view_user v = None \<and> isInitialized v"
  then show "AuthGuard r v = ([], Nothing)"
    by (simp add: AuthGuard_def guardEffect_def guardRender_def)
next
  assume "view_loading v"
  then show "AuthGuard r v = ([], Spinner)"
    by (simp add: AuthGuard_def guardEffect_def guardRender_def)
next
  assume "\<not> view_loading v \<and> view_user v = Some u"
  then show "AuthGuard r v = ([], Children)"
    by (simp add: AuthGuard_def guardEffect_def guardRender_def)
next
  assume exposed: "view_user (useAuth (authState (run es))) = Some u"
  then have "initialized (authState (run es))" by (rule exposed_user_initialized)
  then have "\<not> view_loading (useAuth (authState (run es)))"
    using run_loading_initialized [of es] by (simp add: useAuth_def)
  with exposed show "AuthGuard r (useAuth (authState (run es))) = ([], Children)"
    by (simp add: AuthGuard_def guardEffect_def guardRender_def)
next
  assume "\<not> view_loading (useAuth (authState (run es)))"
  then show "isInitialized (useAuth (authState (run es)))"
    using run_loading_initialized [of es] by (simp add: useAuth_def)
next
  show "fst (AuthGuard r (useAuth (authState (run es)))) = []"
    by (simp add: AuthGuard_def guardEffect_reachable)
qed

theorem guard_behaviour_witness:
  "AuthGuard True (useAuth (authState (run [InitialSessionSettled (Inr None)]))) = ([], Nothing)
   \<and> AuthGuard True (useAuth (authState (run []))) = ([], Spinner)
   \<and> AuthGuard True (useAuth (authState (run [InitialSessionSettled (Inr (Some ''u1''))])))
       = ([], Children)"
  using guard_behaviour [of "useAuth (authState (run [InitialSessionSettled (Inr None)]))"
                            True "''u1''" "[InitialSessionSettled (Inr (Some ''u1''))]"]
        guard_behaviour [of "useAuth (authState (run []))" True "''u1''" "[]"]
  by (simp add: run_def mount_def initialAuthState_def getInitialSession_def useAuth_def)

section \<open>Properties of the record managers\<close>

subsection \<open>parseFloat on the sample strings\<close>

lemma parseFloat_abc: "parseFloat ''abc'' = NaN"
  by (simp add: parseFloat_def isWhiteSpace_def isDigit_def)

lemma parseFloat_1000000: "parseFloat ''1000000'' = Finite 1000000"
  by (simp add: parseFloat_def isWhiteSpace_def isDigit_def digitsValue_def scale10_def)

subsection \<open>Promise.all\<close>

lemma promiseAll_map_Inr: "promiseAll (map Inr vs) = Inr vs"
  by (induction vs) simp_all

lemma promiseAll_Inr_map: "promiseAll rs = Inr vs \<Longrightarrow> rs = map Inr vs"
proof (induction rs arbitrary: vs)
  case Nil
  then show ?case by simp
next
  case (Cons r rs)
  show ?case
  proof (cases r)
    case (Inl m)
    with Cons.prems show ?thesis by simp
  next
    case (Inr v)
    with Cons.prems obtain ws where "promiseAll rs = Inr ws" and "vs = v # ws"
      by (auto split: sum.splits)
    with Cons.IH [of ws] Inr show ?thesis by simp
  qed
qed

lemma promiseAll_Inr_iff: "(promiseAll rs = Inr vs) = (rs = map Inr vs)"
  using promiseAll_Inr_map promiseAll_map_Inr by blast

lemma promiseAll_length: "promiseAll rs = Inr vs \<Longrightarrow> length vs = length rs"
  by (simp add: promiseAll_Inr_iff)

lemma promiseAll_fulfilled:
  "(\<forall>r \<in> set rs. \<exists>v. r = Inr v) \<Longrightarrow> \<exists>vs. promiseAll rs = Inr vs"
proof (induction rs)
  case Nil
  show ?case by simp
next
  case (Cons r rs)
  then obtain v where "r = Inr v" by auto
  moreover obtain vs where "promiseAll rs = Inr vs" using Cons by auto
  ultimately show ?case by simp
qed

subsection \<open>Image removal and record deletion\<close>

lemma handleImageDelete_calls:
  "fst (handleImageDelete env t st u) =
     DeleteImage ''properties'' u #
     (case deleteImage env ''properties'' u of
        Inl m \<Rightarrow> []
      | Inr x \<Rightarrow>
          (case editingProperty st of
             Some e \<Rightarrow> [Update (tableName t)
                          [(''images'', Array (filter (\<lambda>img. img \<noteq> u) (images e)))] (prop_id e)]
           | None \<Rightarrow> []))"
  by (simp add: handleImageDelete_def Let_def split: sum.splits option.splits)

lemma handleImageDelete_plots_calls:
  "fst (handleImageDelete_plots env st u) =
     DeleteImage ''plots'' u #
     (case deleteImage env ''plots'' u of
        Inl m \<Rightarrow> []
      | Inr x \<Rightarrow>
          (case editingPlot st of
             Some e \<Rightarrow> [Update ''plots''
                          [(''images'', Array (filter (\<lambda>img. img \<noteq> u) (plot_images e)))] (plot_id e)]
           | None \<Rightarrow> []))"
  by (simp add: handleImageDelete_plots_def Let_def split: sum.splits option.splits)

lemma handleDelete_calls:
  "confirm env \<Longrightarrow> find_first (\<lambda>p. prop_id p = i) (properties st) = Some p \<Longrightarrow>
   fst (handleDelete env t st i) =
     map (DeleteImage ''properties'') (images p) @
     (case promiseAll (map (deleteImage env ''properties'') (images p)) of
        Inl m \<Rightarrow> []
      | Inr x \<Rightarrow> Delete (tableName t) i #
          (case deleteReply env (tableName t) i of
             Some m \<Rightarrow> []
           | None \<Rightarrow> [Select (tableName t) ''*'' ''created_at'' False]))"
  by (simp add: handleDelete_def fetchProperties_def Let_def split: sum.splits option.splits)

lemma handleDelete_plots_calls:
  "confirm env \<Longrightarrow> find_first (\<lambda>p. plot_id p = i) (plots st) = Some p \<Longrightarrow>
   fst (handleDelete_plots env st i) =
     map (DeleteImage ''plots'') (plot_images p) @
     (case promiseAll (map (deleteImage env ''plots'') (plot_images p)) of
        Inl m \<Rightarrow> []
      | Inr x \<Rightarrow> Delete ''plots'' i #
          (case deleteReply env ''plots'' i of
             Some m \<Rightarrow> []
           | None \<Rightarrow> [Select ''plots'' ''*'' ''created_at'' False]))"
  by (simp add: handleDelete_plots_def fetchPlots_def Let_def split: sum.splits option.splits)

text \<open>
  C3. Removing the image \<open>u\<close> of the record being edited first calls the storage
  delete of \<open>u\<close> and awaits it. Only when that promise is fulfilled does the handler
  issue the update of the record, as its second and last request, with an images
  sequence that no longer contains \<open>u\<close>; when the storage delete is rejected the
  storage delete is the only request. Both managers behave so.
\<close>

theorem image_remove_delete_then_persist:
  "(editingProperty st = Some e \<longrightarrow>
      fst (handleImageDelete env t st u) =
        (case deleteImage env ''properties'' u of
           Inl m \<Rightarrow> [DeleteImage ''properties'' u]
         | Inr x \<Rightarrow> [DeleteImage ''properties'' u,
                     Update (tableName t)
                       [(''images'', Array (filter (\<lambda>img. img \<noteq> u) (images e)))] (prop_id e)])
      \<and> u \<notin> set (filter (\<lambda>img. img \<noteq> u) (images e)))
   \<and> (editingPlot pst = Some pe \<longrightarrow>
      fst (handleImageDelete_plots penv pst u) =
        (case deleteImage penv ''plots'' u of
           Inl m \<Rightarrow> [DeleteImage ''plots'' u]
         | Inr x \<Rightarrow> [DeleteImage ''plots'' u,
                     Update ''plots''
                       [(''images'', Array (filter (\<lambda>img. img \<noteq> u) (plot_images pe)))] (plot_id pe)])
      \<and> u \<notin> set (filter (\<lambda>img. img \<noteq> u) (plot_images pe)))"
  by (simp add: handleImageDelete_calls handleImageDelete_plots_calls split: sum.splits)

theorem image_remove_delete_then_persist_witness:
  "editingProperty demoEditing = Some demoProperty
   \<and> fst (handleImageDelete demoEnv Resale demoEditing ''U1'') =
       [DeleteImage ''properties'' ''U1'',
        Update ''resale_properties'' [(''images'', Array [''U2''])] ''R1'']
   \<and> fst (handleImageDelete failingStorageEnv Resale demoEditing ''U1'')
       = [DeleteImage ''properties'' ''U1'']
   \<and> editingPlot demoPlotEditing = Some demoPlot
   \<and> fst (handleImageDelete_plots demoEnv demoPlotEditing ''U1'') =
       [DeleteImage ''plots'' ''U1'', Update ''plots'' [(''images'', Array [''U2''])] ''P1'']"
  using image_remove_delete_then_persist
          [of demoEditing demoProperty demoEnv Resale "''U1''" demoPlotEditing demoPlot demoEnv]
        image_remove_delete_then_persist
          [of demoEditing demoProperty failingStorageEnv
              Resale "''U1''" demoPlotEditing demoPlot demoEnv]
  by (simp add: demoEditing_def demoState_def demoProperty_def demoPlotEditing_def demoPlots_def
                demoPlot_def demoEnv_def failingStorageEnv_def deleteImage_def tableName_def)

lemma handleDelete_refetched:
  "confirm env \<Longrightarrow> find_first (\<lambda>p. prop_id p = i) (properties st) = Some p \<Longrightarrow>
   promiseAll (map (deleteImage env ''properties'') (images p)) = Inr vs \<Longrightarrow>
   deleteReply env (tableName t) i = None \<Longrightarrow>
   snd (handleDelete env t st i) = snd (fetchProperties env t st)"
  by (simp add: handleDelete_def Let_def split: prod.splits)

lemma handleDelete_plots_refetched:
  "confirm env \<Longrightarrow> find_first (\<lambda>p. plot_id p = i) (plots st) = Some p \<Longrightarrow>
   promiseAll (map (deleteImage env ''plots'') (plot_images p)) = Inr vs \<Longrightarrow>
   deleteReply env ''plots'' i = None \<Longrightarrow>
   snd (handleDelete_plots env st i) = snd (fetchPlots env st)"
  by (simp add: handleDelete_plots_def Let_def split: prod.splits)

text \<open>
  C4. A confirmed deletion of a listed record calls the storage delete once for
  each of the record's image URLs, all of them before anything else. The delete of
  the record comes after them, if it is issued at all (it is not when one of the
  storage deletes is rejected). When the record delete reports no error it is
  followed by the refetch of the list, ordered by \<open>created_at\<close> descending, and the
  state is the one the refetch leaves. Both managers behave so.
\<close>

theorem delete_cascade_order:
  "(confirm env \<and> find_first (\<lambda>p. prop_id p = i) (properties st) = Some p \<longrightarrow>
      fst (handleDelete env t st i) =
        map (DeleteImage ''properties'') (images p) @
        (case promiseAll (map (deleteImage env ''properties'') (images p)) of
           Inl m \<Rightarrow> []
         | Inr x \<Rightarrow> Delete (tableName t) i #
             (case deleteReply env (tableName t) i of
                Some m \<Rightarrow> []
              | None \<Rightarrow> [Select (tableName t) ''*'' ''created_at'' False]))
      \<and> (\<forall>u \<in> set (images p). DeleteImage ''properties'' u \<in> set (fst (handleDelete env t st i)))
      \<and> (promiseAll (map (deleteImage env ''properties'') (images p)) = Inr vs
           \<and> deleteReply env (tableName t) i = None \<longrightarrow>
           snd (handleDelete env t st i) = snd (fetchProperties env t st)))
   \<and> (confirm penv \<and> find_first (\<lambda>p. plot_id p = i) (plots pst) = Some pp \<longrightarrow>
      fst (handleDelete_plots penv pst i) =
        map (DeleteImage ''plots'') (plot_images pp) @
        (case promiseAll (map (deleteImage penv ''plots'') (plot_images pp)) of
           Inl m \<Rightarrow> []
         | Inr x \<Rightarrow> Delete ''plots'' i #
             (case deleteReply penv ''plots'' i of
                Some m \<Rightarrow> []
              | None \<Rightarrow> [Select ''plots'' ''*'' ''created_at'' False]))
      \<and> (\<forall>u \<in> set (plot_images pp). DeleteImage ''plots'' u \<in> set (fst (handleDelete_plots penv pst i)))
      \<and> (promiseAll (map (deleteImage penv ''plots'') (plot_images pp)) = Inr vs
           \<and> deleteReply penv ''plots'' i = None \<longrightarrow>
           snd (handleDelete_plots penv pst i) = snd (fetchPlots penv pst)))"
proof (intro conjI impI ballI)
  assume a: "confirm env \<and> find_first (\<lambda>p. prop_id p = i) (properties st) = Some p"
  then show calls: "fst (handleDelete env t st i) =
        map (DeleteImage ''properties'') (images p) @
        (case promiseAll (map (deleteImage env ''properties'') (images p)) of
           Inl m \<Rightarrow> []
         | Inr x \<Rightarrow> Delete (tableName t) i #
             (case deleteReply env (tableName t) i of
                Some m \<Rightarrow> []
              | None \<Rightarrow> [Select (tableName t) ''*'' ''created_at'' False]))"
    by (simp add: handleDelete_calls)
  fix u assume "u \<in> set (images p)"
  then show "DeleteImage ''properties'' u \<in> set (fst (handleDelete env t st i))"
    unfolding calls by simp
next
  assume "confirm env \<and> find_first (\<lambda>p. prop_id p = i) (properties st) = Some p"
    and "promiseAll (map (deleteImage env ''properties'') (images p)) = Inr vs
           \<and> deleteReply env (tableName t) i = None"
  then show "snd (handleDelete env t st i) = snd (fetchProperties env t st)"
    by (simp add: handleDelete_refetched)
next
  assume a: "confirm penv \<and> find_first (\<lambda>p. plot_id p = i) (plots pst) = Some pp"
  then show calls: "fst (handleDelete_plots penv pst i) =
        map (DeleteImage ''plots'') (plot_images pp) @
        (case promiseAll (map (deleteImage penv ''plots'') (plot_images pp)) of
           Inl m \<Rightarrow> []
         | Inr x \<Rightarrow> Delete ''plots'' i #
             (case deleteReply penv ''plots'' i of
                Some m \<Rightarrow> []
              | None \<Rightarrow> [Select ''plots'' ''*'' ''created_at'' False]))"
    by (simp add: handleDelete_plots_calls)
  fix u assume "u \<in> set (plot_images pp)"
  then show "DeleteImage ''plots'' u \<in> set (fst (handleDelete_plots penv pst i))"
    unfolding calls by simp
next
  assume "confirm penv \<and> find_first (\<lambda>p. plot_id p = i) (plots pst) = Some pp"
    and "promiseAll (map (deleteImage penv ''plots'') (plot_images pp)) = Inr vs
           \<and> deleteReply penv ''plots'' i = None"
  then show "snd (handleDelete_plots penv pst i) = snd (fetchPlots penv pst)"
    by (simp add: handleDelete_plots_refetched)
qed

theorem delete_cascade_order_witness:
  "confirm (demoEnv :: Property env)
   \<and> find_first (\<lambda>p. prop_id p = ''R1'') (properties demoState) = Some demoProperty
   \<and> fst (handleDelete demoEnv Resale demoState ''R1'') =
       [DeleteImage ''properties'' ''U1'', DeleteImage ''properties'' ''U2'',
        Delete ''resale_properties'' ''R1'',
        Select ''resale_properties'' ''*'' ''created_at'' False]
   \<and> properties (snd (handleDelete demoEnv Resale demoState ''R1'')) = []
   \<and> confirm (demoEnv :: Plot env)
   \<and> find_first (\<lambda>p. plot_id p = ''P1'') (plots demoPlots) = Some demoPlot
   \<and> fst (handleDelete_plots demoEnv demoPlots ''P1'') =
       [DeleteImage ''plots'' ''U1'', DeleteImage ''plots'' ''U2'',
        Delete ''plots'' ''P1'', Select ''plots'' ''*'' ''created_at'' False]
   \<and> plots (snd (handleDelete_plots demoEnv demoPlots ''P1'')) = []"
  using delete_cascade_order
          [of demoEnv "''R1''" demoState demoProperty Resale "[(), ()]" demoEnv demoPlots demoPlot]
  by (simp add: demoState_def demoProperty_def demoPlots_def demoPlot_def demoEnv_def
                deleteImage_def tableName_def fetchProperties_def fetchPlots_def
                handleDelete_def handleDelete_plots_def)

lemma deletes_fulfilled:
  assumes "\<forall>u \<in> set us. storageRemove env n u = Removed \<or> storageRemove env n u = NotFound"
  shows "\<exists>vs. promiseAll (map (deleteImage env n) us) = Inr vs"
proof (rule promiseAll_fulfilled, rule ballI)
  fix r assume "r \<in> set (map (deleteImage env n) us)"
  then obtain u where "u \<in> set us" and "r = deleteImage env n u" by auto
  with assms show "\<exists>v. r = Inr v" by (auto simp: deleteImage_def)
qed

lemma promiseAll_rejected:
  "\<exists>r \<in> set rs. \<exists>m. r = Inl m \<Longrightarrow> \<exists>m. promiseAll rs = Inl m"
proof (induction rs)
  case Nil
  then show ?case by simp
next
  case (Cons r rs)
  show ?case
  proof (cases r)
    case (Inl m)
    then show ?thesis by simp
  next
    case (Inr v)
    with Cons.prems have "\<exists>r \<in> set rs. \<exists>m. r = Inl m" by auto
    then obtain m where "promiseAll rs = Inl m" using Cons.IH by blast
    with Inr show ?thesis by simp
  qed
qed

lemma deletes_rejected:
  assumes "\<exists>u \<in> set us. \<exists>m. storageRemove env n u = StorageFailure m"
  shows "\<exists>m. promiseAll (map (deleteImage env n) us) = Inl m"
proof (rule promiseAll_rejected)
  from assms obtain u m where "u \<in> set us" and "storageRemove env n u = StorageFailure m"
    by blast
  then have "deleteImage env n u \<in> set (map (deleteImage env n) us)"
    and "deleteImage env n u = Inl m"
  proof -
    assume "u \<in> set us"
    then show "deleteImage env n u \<in> set (map (deleteImage env n) us)" by simp
  next
    assume "storageRemove env n u = StorageFailure m"
    then show "deleteImage env n u = Inl m" by (simp add: deleteImage_def)
  qed
  then show "\<exists>r \<in> set (map (deleteImage env n) us). \<exists>m. r = Inl m" by metis
qed

text \<open>
  C6 (as amended). In a confirmed deletion of a listed record, an image that the
  storage reports as already absent does not stop the cascade: when every storage
  delete of the record's images is answered as removed or as already absent, the
  storage deletes are followed by the delete of the record. The cascade stops, with
  no delete of the record, when some storage delete fails, whatever the others
  report. Both managers behave so.
\<close>

theorem absent_object_does_not_abort_cascade:
  "(confirm env \<and> find_first (\<lambda>p. prop_id p = i) (properties st) = Some p \<longrightarrow>
      ((\<forall>u \<in> set (images p). storageRemove env ''properties'' u = Removed
                                \<or> storageRemove env ''properties'' u = NotFound)
        \<longrightarrow> fst (handleDelete env t st i) =
              map (DeleteImage ''properties'') (images p) @
              Delete (tableName t) i #
              (case deleteReply env (tableName t) i of
                 Some m \<Rightarrow> []
               | None \<Rightarrow> [Select (tableName t) ''*'' ''created_at'' False]))
      \<and> ((\<exists>u \<in> set (images p). \<exists>m. storageRemove env ''properties'' u = StorageFailure m)
        \<longrightarrow> fst (handleDelete env t st i) = map (DeleteImage ''properties'') (images p)))
   \<and> (confirm penv \<and> find_first (\<lambda>p. plot_id p = i) (plots pst) = Some pp \<longrightarrow>
      ((\<forall>u \<in> set (plot_images pp). storageRemove penv ''plots'' u = Removed
                                     \<or> storageRemove penv ''plots'' u = NotFound)
        \<longrightarrow> fst (handleDelete_plots penv pst i) =
              map (DeleteImage ''plots'') (plot_images pp) @
              Delete ''plots'' i #
              (case deleteReply penv ''plots'' i of
                 Some m \<Rightarrow> []
               | None \<Rightarrow> [Select ''plots'' ''*'' ''created_at'' False]))
      \<and> ((\<exists>u \<in> set (plot_images pp). \<exists>m. storageRemove penv ''plots'' u = StorageFailure m)
        \<longrightarrow> fst (handleDelete_plots penv pst i) = map (DeleteImage ''plots'') (plot_images pp)))"
proof (intro conjI impI)
  assume a: "confirm env \<and> find_first (\<lambda>p. prop_id p = i) (properties st) = Some p"
  {
    assume "\<forall>u \<in> set (images p). storageRemove env ''properties'' u = Removed
                                \<or> storageRemove env ''properties'' u = NotFound"
    then obtain vs where "promiseAll (map (deleteImage env ''properties'') (images p)) = Inr vs"
      using deletes_fulfilled [of "images p" env "''properties''"] by blast
    with a show "fst (handleDelete env t st i) =
              map (DeleteImage ''properties'') (images p) @
              Delete (tableName t) i #
              (case deleteReply env (tableName t) i of
                 Some m \<Rightarrow> []
               | None \<Rightarrow> [Select (tableName t) ''*'' ''created_at'' False])"
      by (simp add: handleDelete_calls)
  }
  {
    assume "\<exists>u \<in> set (images p). \<exists>m. storageRemove env ''properties'' u = StorageFailure m"
    then obtain m where "promiseAll (map (deleteImage env ''properties'') (images p)) = Inl m"
      using deletes_rejected [of "images p" env "''properties''"] by blast
    with a show "fst (handleDelete env t st i) = map (DeleteImage ''properties'') (images p)"
      by (simp add: handleDelete_calls)
  }
next
  assume a: "confirm penv \<and> find_first (\<lambda>p. plot_id p = i) (plots pst) = Some pp"
  {
    assume "\<forall>u \<in> set (plot_images pp). storageRemove penv ''plots'' u = Removed
                                     \<or> storageRemove penv ''plots'' u = NotFound"
    then obtain vs where "promiseAll (map (deleteImage penv ''plots'') (plot_images pp)) = Inr vs"
      using deletes_fulfilled [of "plot_images pp" penv "''plots''"] by blast
    with a show "fst (handleDelete_plots penv pst i) =
              map (DeleteImage ''plots'') (plot_images pp) @
              Delete ''plots'' i #
              (case deleteReply penv ''plots'' i of
                 Some m \<Rightarrow> []
               | None \<Rightarrow> [Select ''plots'' ''*'' ''created_at'' False])"
      by (simp add: handleDelete_plots_calls)
  }
  {
    assume "\<exists>u \<in> set (plot_images pp). \<exists>m. storageRemove penv ''plots'' u = StorageFailure m"
    then obtain m where "promiseAll (map (deleteImage penv ''plots'') (plot_images pp)) = Inl m"
      using deletes_rejected [of "plot_images pp" penv "''plots''"] by blast
    with a show "fst (handleDelete_plots penv pst i) = map (DeleteImage ''plots'') (plot_images pp)"
      by (simp add: handleDelete_plots_calls)
  }
qed

theorem absent_object_does_not_abort_cascade_witness:
  "confirm (demoEnv :: Property env)
   \<and> find_first (\<lambda>p. prop_id p = ''R1'') (properties demoState) = Some demoProperty
   \<and> storageRemove (demoEnv :: Property env) ''properties'' ''U1'' = Removed
   \<and> storageRemove (demoEnv :: Property env) ''properties'' ''U2'' = NotFound
   \<and> images demoProperty = [''U1'', ''U2'']
   \<and> fst (handleDelete demoEnv Resale demoState ''R1'') =
       [DeleteImage ''properties'' ''U1'', DeleteImage ''properties'' ''U2'',
        Delete ''resale_properties'' ''R1'',
        Select ''resale_properties'' ''*'' ''created_at'' False]
   \<and> confirm (failingStorageEnv :: Plot env)
   \<and> find_first (\<lambda>p. plot_id p = ''P1'') (plots demoPlots) = Some demoPlot
   \<and> storageRemove (failingStorageEnv :: Plot env) ''plots'' ''U1'' = StorageFailure ''storage down''
   \<and> fst (handleDelete_plots failingStorageEnv demoPlots ''P1'') =
       [DeleteImage ''plots'' ''U1'', DeleteImage ''plots'' ''U2'']"
  using absent_object_does_not_abort_cascade
          [of demoEnv "''R1''" demoState demoProperty Resale failingStorageEnv demoPlots demoPlot]
  by (simp add: demoState_def demoProperty_def demoPlots_def demoPlot_def demoEnv_def
                failingStorageEnv_def tableName_def handleDelete_def handleDelete_plots_def
                deleteImage_def fetchProperties_def fetchPlots_def)

text \<open>
  C6 as the spec words it fails: the record \<open>R1\<close> has the images \<open>U1\<close> and \<open>U2\<close>;
  the storage reports \<open>U2\<close> as already absent and fails the removal of \<open>U1\<close>; the
  two storage deletes are issued and the delete of the record is not.
\<close>

theorem absent_object_counterexample:
  "confirm (mixedStorageEnv :: Property env)
   \<and> find_first (\<lambda>p. prop_id p = ''R1'') (properties demoState) = Some demoProperty
   \<and> images demoProperty = [''U1'', ''U2'']
   \<and> storageRemove (mixedStorageEnv :: Property env) ''properties'' ''U2'' = NotFound
   \<and> fst (handleDelete mixedStorageEnv Resale demoState ''R1'') =
       [DeleteImage ''properties'' ''U1'', DeleteImage ''properties'' ''U2'']"
  by (simp add: demoState_def demoProperty_def demoEnv_def mixedStorageEnv_def
                handleDelete_def deleteImage_def)

subsection \<open>Image mutations leave the other columns alone\<close>

lemma handleImageUpload_calls:
  "fst (handleImageUpload env t st files) =
     map (\<lambda>f. UploadImage f ''properties''
                (typeString t @ ''/'' @ ownerKey (map_option prop_id (editingProperty st)))) files @
     (case promiseAll (map (\<lambda>f. uploadImage env f ''properties''
                (typeString t @ ''/'' @ ownerKey (map_option prop_id (editingProperty st)))) files) of
        Inl m \<Rightarrow> []
      | Inr urls \<Rightarrow>
          (case editingProperty st of
             Some e \<Rightarrow> [Update (tableName t) [(''images'', Array (images e @ urls))] (prop_id e)]
           | None \<Rightarrow> []))"
  by (simp add: handleImageUpload_def Let_def split: sum.splits option.splits)

lemma handleImageUpload_plots_calls:
  "fst (handleImageUpload_plots env st files) =
     map (\<lambda>f. UploadImage f ''plots'' (ownerKey (map_option plot_id (editingPlot st)))) files @
     (case promiseAll (map (\<lambda>f. uploadImage env f ''plots''
                (ownerKey (map_option plot_id (editingPlot st)))) files) of
        Inl m \<Rightarrow> []
      | Inr urls \<Rightarrow>
          (case editingPlot st of
             Some e \<Rightarrow> [Update ''plots'' [(''images'', Array (plot_images e @ urls))] (plot_id e)]
           | None \<Rightarrow> []))"
  by (simp add: handleImageUpload_plots_def Let_def split: sum.splits option.splits)

lemma images_only_update_keeps_columns:
  assumes "touchesOnlyImages (Update tb pl i)" and "k \<noteq> ''images''"
  shows "applyUpdate pl r k = r k"
proof -
  from assms(1) have "map fst pl = [''images'']" by simp
  then obtain v where "pl = [(''images'', v)]" by (cases pl) auto
  with assms(2) show ?thesis by (simp add: applyUpdate_def)
qed

lemma handleImageUpload_frame:
  "(\<forall>c \<in> set (fst (handleImageUpload env t st files)). touchesOnlyImages c)
   \<and> properties (snd (handleImageUpload env t st files)) = properties st
   \<and> (editingProperty st = Some e \<longrightarrow>
        (\<forall>e'. editingProperty (snd (handleImageUpload env t st files)) = Some e' \<longrightarrow>
              e'\<lparr>images := images e\<rparr> = e))"
  by (auto simp: handleImageUpload_def Let_def split: sum.splits option.splits)

lemma handleImageDelete_frame:
  "(\<forall>c \<in> set (fst (handleImageDelete env t st u)). touchesOnlyImages c)
   \<and> properties (snd (handleImageDelete env t st u)) = properties st
   \<and> (editingProperty st = Some e \<longrightarrow>
        (\<forall>e'. editingProperty (snd (handleImageDelete env t st u)) = Some e' \<longrightarrow>
              e'\<lparr>images := images e\<rparr> = e))"
  by (auto simp: handleImageDelete_def Let_def split: sum.splits option.splits)

lemma handleImageUpload_plots_frame:
  "(\<forall>c \<in> set (fst (handleImageUpload_plots env st files)). touchesOnlyImages c)
   \<and> plots (snd (handleImageUpload_plots env st files)) = plots st
   \<and> (editingPlot st = Some e \<longrightarrow>
        (\<forall>e'. editingPlot (snd (handleImageUpload_plots env st files)) = Some e' \<longrightarrow>
              e'\<lparr>plot_images := plot_images e\<rparr> = e))"
  by (auto simp: handleImageUpload_plots_def Let_def split: sum.splits option.splits)

lemma handleImageDelete_plots_frame:
  "(\<forall>c \<in> set (fst (handleImageDelete_plots env st u)). touchesOnlyImages c)
   \<and> plots (snd (handleImageDelete_plots env st u)) = plots st
   \<and> (editingPlot st = Some e \<longrightarrow>
        (\<forall>e'. editingPlot (snd (handleImageDelete_plots env st u)) = Some e' \<longrightarrow>
              e'\<lparr>plot_images := plot_images e\<rparr> = e))"
  by (auto simp: handleImageDelete_plots_def Let_def split: sum.splits option.splits)

text \<open>
  C10. Every request issued by an image-add or an image-remove either writes no
  record or is an update naming the column \<open>images\<close> alone, so that the record
  store keeps every other column of the row as it was. Locally the draft differs
  from the one before in its images only, and the cached list is not changed.
  Both managers behave so.
\<close>

theorem image_mutation_touches_only_images:
  "(\<forall>c \<in> set (fst (handleImageUpload env t st files) @ fst (handleImageDelete env t st u)
                @ fst (handleImageUpload_plots penv pst files) @ fst (handleImageDelete_plots penv pst u)).
      touchesOnlyImages c
      \<and> (\<forall>tb pl i k. c = Update tb pl i \<and> k \<noteq> ''images'' \<longrightarrow> applyUpdate pl r k = r k))
   \<and> properties (snd (handleImageUpload env t st files)) = properties st
   \<and> properties (snd (handleImageDelete env t st u)) = properties st
   \<and> plots (snd (handleImageUpload_plots penv pst files)) = plots pst
   \<and> plots (snd (handleImageDelete_plots penv pst u)) = plots pst
   \<and> (editingProperty st = Some e \<longrightarrow>
        (\<forall>e'. editingProperty (snd (handleImageUpload env t st files)) = Some e'
               \<or> editingProperty (snd (handleImageDelete env t st u)) = Some e' \<longrightarrow>
              e'\<lparr>images := images e\<rparr> = e))
   \<and> (editingPlot pst = Some pe \<longrightarrow>
        (\<forall>e'. editingPlot (snd (handleImageUpload_plots penv pst files)) = Some e'
               \<or> editingPlot (snd (handleImageDelete_plots penv pst u)) = Some e' \<longrightarrow>
              e'\<lparr>plot_images := plot_images pe\<rparr> = pe))"
proof (intro conjI ballI allI impI)
  fix c
  assume c: "c \<in> set (fst (handleImageUpload env t st files) @ fst (handleImageDelete env t st u)
                @ fst (handleImageUpload_plots penv pst files) @ fst (handleImageDelete_plots penv pst u))"
  then show only: "touchesOnlyImages c"
    using handleImageUpload_frame [of env t st files] handleImageDelete_frame [of env t st u]
          handleImageUpload_plots_frame [of penv pst files]
          handleImageDelete_plots_frame [of penv pst u]
    by auto
  fix tb pl i k
  assume "c = Update tb pl i \<and> k \<noteq> ''images''"
  with only show "applyUpdate pl r k = r k"
    by (simp add: images_only_update_keeps_columns)
next
  show "properties (snd (handleImageUpload env t st files)) = properties st"
    using handleImageUpload_frame [of env t st files] by simp
next
  show "properties (snd (handleImageDelete env t st u)) = properties st"
    using handleImageDelete_frame [of env t st u] by simp
next
  show "plots (snd (handleImageUpload_plots penv pst files)) = plots pst"
    using handleImageUpload_plots_frame [of penv pst files] by simp
next
  show "plots (snd (handleImageDelete_plots penv pst u)) = plots pst"
    using handleImageDelete_plots_frame [of penv pst u] by simp
next
  fix e'
  assume "editingProperty st = Some e"
    and "editingProperty (snd (handleImageUpload env t st files)) = Some e'
         \<or> editingProperty (snd (handleImageDelete env t st u)) = Some e'"
  then show "e'\<lparr>images := images e\<rparr> = e"
    using handleImageUpload_frame [of env t st files e] handleImageDelete_frame [of env t st u e]
    by blast
next
  fix e'
  assume "editingPlot pst = Some pe"
    and "editingPlot (snd (handleImageUpload_plots penv pst files)) = Some e'
         \<or> editingPlot (snd (handleImageDelete_plots penv pst u)) = Some e'"
  then show "e'\<lparr>plot_images := plot_images pe\<rparr> = pe"
    using handleImageUpload_plots_frame [of penv pst files pe]
          handleImageDelete_plots_frame [of penv pst u pe]
    by blast
qed

theorem image_mutation_touches_only_images_witness:
  "Update ''resale_properties'' [(''images'', Array [''U1'', ''U2'', ''cdn/a.png''])] ''R1''
     \<in> set (fst (handleImageUpload demoEnv Resale demoEditing [''a.png'']))
   \<and> applyUpdate [(''images'', Array [''U1'', ''U2'', ''cdn/a.png''])]
        [''price'' \<mapsto> Number (Finite 1000000)] ''price'' = Some (Number (Finite 1000000))
   \<and> editingProperty demoEditing = Some demoProperty
   \<and> editingProperty (snd (handleImageDelete demoEnv Resale demoEditing ''U1''))
       = Some (demoProperty\<lparr>images := [''U2'']\<rparr>)
   \<and> (demoProperty\<lparr>images := [''U2'']\<rparr>)\<lparr>images := images demoProperty\<rparr> = demoProperty
   \<and> editingPlot demoPlotEditing = Some demoPlot
   \<and> editingPlot (snd (handleImageUpload_plots demoEnv demoPlotEditing [''a.png'']))
       = Some (demoPlot\<lparr>plot_images := [''U1'', ''U2'', ''cdn/a.png'']\<rparr>)"
  using image_mutation_touches_only_images
          [of demoEnv Resale demoEditing "[''a.png'']" "''U1''" demoEnv demoPlotEditing
              "[''price'' \<mapsto> Number (Finite 1000000)]" demoProperty demoPlot]
  by (simp add: demoEditing_def demoState_def demoProperty_def demoPlotEditing_def demoPlots_def
                demoPlot_def demoEnv_def tableName_def handleImageUpload_def
                handleImageDelete_def handleImageUpload_plots_def deleteImage_def
                handleImageDelete_plots_def ownerKey_def applyUpdate_def Let_def)

subsection \<open>Form submission\<close>

lemma handleSubmit_calls:
  "fst (handleSubmit env t st fd) =
     (case editingProperty st of
        Some e \<Rightarrow>
          Update (tableName t) (propertyData fd (Some e)) (prop_id e) #
          (case updateReply env (tableName t) (propertyData fd (Some e)) (prop_id e) of
             Some m \<Rightarrow> []
           | None \<Rightarrow> [Select (tableName t) ''*'' ''created_at'' False])
      | None \<Rightarrow>
          Insert (tableName t) [propertyData fd None] #
          (case insertReply env (tableName t) [propertyData fd None] of
             Some m \<Rightarrow> []
           | None \<Rightarrow> [Select (tableName t) ''*'' ''created_at'' False]))"
  by (simp add: handleSubmit_def fetchProperties_def Let_def split: option.splits)

lemma handleSubmit_plots_calls:
  "fst (handleSubmit_plots env st fd) =
     (case editingPlot st of
        Some e \<Rightarrow>
          Update ''plots'' (plotData fd (Some e)) (plot_id e) #
          (case updateReply env ''plots'' (plotData fd (Some e)) (plot_id e) of
             Some m \<Rightarrow> []
           | None \<Rightarrow> [Select ''plots'' ''*'' ''created_at'' False])
      | None \<Rightarrow>
          Insert ''plots'' [plotData fd None] #
          (case insertReply env ''plots'' [plotData fd None] of
             Some m \<Rightarrow> []
           | None \<Rightarrow> [Select ''plots'' ''*'' ''created_at'' False]))"
  by (simp add: handleSubmit_plots_def fetchPlots_def Let_def split: option.splits)



subsection \<open>What a number control lets through parses as a number\<close>

lemma digit_facts:
  "isDigit c \<Longrightarrow> \<not> isWhiteSpace c"
  "isDigit c \<Longrightarrow> c \<noteq> CHR ''-''"
  "isDigit c \<Longrightarrow> c \<noteq> CHR ''+''"
  "isDigit c \<Longrightarrow> c \<noteq> CHR ''I''"
  "isDigit c \<Longrightarrow> c \<noteq> CHR ''.''"
  by (auto simp: isDigit_def isWhiteSpace_def)

lemma stop_facts:
  "\<not> isWhiteSpace CHR ''.''" "\<not> isWhiteSpace CHR ''-''"
  by (simp_all add: isWhiteSpace_def)

lemma parseFloat_NaN_iff:
  assumes "signPart (dropWhile isWhiteSpace s) = (neg, u)" and "take 8 u \<noteq> ''Infinity''"
  shows "(parseFloat s = NaN) =
           (takeWhile isDigit u = []
            \<and> (case dropWhile isDigit u of
                  [] \<Rightarrow> True
                | c # r \<Rightarrow> c = CHR ''.'' \<longrightarrow> takeWhile isDigit r = []))"
proof (cases "dropWhile isDigit u")
  case Nil
  with assms show ?thesis
    by (simp add: parseFloat_def Let_def del: dropWhile_eq_Nil_conv)
next
  case (Cons c r)
  with assms show ?thesis
    by (simp add: parseFloat_def Let_def del: dropWhile_eq_Nil_conv)
qed

lemma validUnsigned_head:
  assumes "validUnsigned u"
  obtains c r where "u = c # r" and "isDigit c \<or> c = CHR ''.''"
proof (cases u)
  case Nil
  with assms show ?thesis by (simp add: validUnsigned_def)
next
  case (Cons c r)
  show ?thesis
  proof (cases "isDigit c")
    case True
    with Cons that show ?thesis by blast
  next
    case False
    with assms Cons have "c = CHR ''.''"
      by (simp add: validUnsigned_def split: if_splits)
    with Cons that show ?thesis by blast
  qed
qed

lemma validUnsigned_digits:
  assumes "validUnsigned u"
  shows "\<not> (takeWhile isDigit u = []
            \<and> (case dropWhile isDigit u of
                  [] \<Rightarrow> True
                | c # r \<Rightarrow> c = CHR ''.'' \<longrightarrow> takeWhile isDigit r = []))"
proof (cases "dropWhile isDigit u")
  case Nil
  with assms show ?thesis
    by (simp add: validUnsigned_def Let_def del: dropWhile_eq_Nil_conv)
next
  case (Cons c r)
  with assms show ?thesis
    by (simp add: validUnsigned_def Let_def del: dropWhile_eq_Nil_conv split: if_splits)
qed

lemma validUnsigned_parses:
  assumes "validUnsigned u" and "signPart (dropWhile isWhiteSpace s) = (neg, u)"
  shows "parseFloat s \<noteq> NaN"
proof -
  from assms(1) obtain c r where u: "u = c # r" and c: "isDigit c \<or> c = CHR ''.''"
    by (rule validUnsigned_head)
  from c have "c \<noteq> CHR ''I''" using digit_facts(4) by auto
  with u have "take 8 u \<noteq> ''Infinity''" by simp
  with assms(2) show ?thesis
    using validUnsigned_digits [OF assms(1)] by (simp add: parseFloat_NaN_iff)
qed

lemma valid_number_parses:
  assumes "validFloatingPointNumber s"
  shows "parseFloat s \<noteq> NaN"
proof (cases s)
  case Nil
  with assms show ?thesis by (simp add: validFloatingPointNumber_def validUnsigned_def)
next
  case (Cons c r)
  show ?thesis
  proof (cases "c = CHR ''-''")
    case True
    with Cons assms have "validUnsigned r" by (simp add: validFloatingPointNumber_def)
    moreover from True Cons have "signPart (dropWhile isWhiteSpace s) = (True, r)"
      by (simp add: stop_facts)
    ultimately show ?thesis by (rule validUnsigned_parses)
  next
    case False
    with Cons assms have v: "validUnsigned s" by (simp add: validFloatingPointNumber_def)
    then obtain c' r' where "s = c' # r'" and "isDigit c' \<or> c' = CHR ''.''"
      by (rule validUnsigned_head)
    with Cons have c: "isDigit c \<or> c = CHR ''.''" by simp
    then have "\<not> isWhiteSpace c" and "c \<noteq> CHR ''+''"
      using digit_facts(1,3) stop_facts(1) by auto
    with Cons False have "signPart (dropWhile isWhiteSpace s) = (False, s)" by simp
    with v show ?thesis by (rule validUnsigned_parses)
  qed
qed

lemma parseFloat_empty: "parseFloat [] = NaN"
  by (simp add: parseFloat_def)

lemma number_control_parses:
  assumes "inputType el = NumberInput" and "controlValue el typed \<noteq> []"
  shows "parseFloat (controlValue el typed) \<noteq> NaN"
proof -
  from assms have "validFloatingPointNumber (typed (inputName el))"
    and "controlValue el typed = typed (inputName el)"
    by (simp_all add: controlValue_def split: if_splits)
  then show ?thesis by (simp add: valid_number_parses)
qed

lemma number_control_unparsed:
  assumes "inputType el = NumberInput" and "parseFloat (typed (inputName el)) = NaN"
  shows "controlValue el typed = []"
  using assms valid_number_parses [of "typed (inputName el)"]
  by (auto simp: controlValue_def)

lemma propertyData_NaN:
  "(Number NaN \<in> snd ` set (propertyData fd ed)) = (formNumber fd ''price'' = NaN)"
  by (auto simp: propertyData_def formGet_def split: option.splits)

lemma plotData_NaN:
  "(Number NaN \<in> snd ` set (plotData fd ed))
     = (formNumber fd ''price_per_sqft'' = NaN \<or> formNumber fd ''total_price'' = NaN)"
  by (auto simp: plotData_def formGet_def split: option.splits)

lemma handleSubmit_carriesNaN:
  "(\<exists>c \<in> set (fst (handleSubmit env t st fd)). carriesNaN c) = (formNumber fd ''price'' = NaN)"
  by (simp add: handleSubmit_calls propertyData_NaN split: option.splits)

lemma handleSubmit_plots_carriesNaN:
  "(\<exists>c \<in> set (fst (handleSubmit_plots env st fd)). carriesNaN c)
     = (formNumber fd ''price_per_sqft'' = NaN \<or> formNumber fd ''total_price'' = NaN)"
  by (simp add: handleSubmit_plots_calls plotData_NaN split: option.splits)

lemma property_submitEvent:
  assumes "submitEvent propertyInputs typed = Some fd"
  shows "formNumber fd ''price'' \<noteq> NaN"
proof -
  let ?el = "\<lparr>inputType = NumberInput, inputName = ''price'', required = True\<rparr>"
  from assms have "controlValue ?el typed \<noteq> []"
    and "map_of fd ''price'' = Some (controlValue ?el typed)"
    by (auto simp: submitEvent_def propertyInputs_def satisfiesConstraints_def split: if_splits)
  then show ?thesis
    using number_control_parses [of ?el typed] by (simp add: formNumber_def)
qed

lemma plot_submitEvent:
  assumes "submitEvent plotInputs typed = Some fd"
  shows "formNumber fd ''price_per_sqft'' \<noteq> NaN \<and> formNumber fd ''total_price'' \<noteq> NaN"
proof -
  let ?a = "\<lparr>inputType = NumberInput, inputName = ''price_per_sqft'', required = True\<rparr>"
  let ?b = "\<lparr>inputType = NumberInput, inputName = ''total_price'', required = True\<rparr>"
  from assms have "controlValue ?a typed \<noteq> []"
    and "map_of fd ''price_per_sqft'' = Some (controlValue ?a typed)"
    and "controlValue ?b typed \<noteq> []"
    and "map_of fd ''total_price'' = Some (controlValue ?b typed)"
    by (auto simp: submitEvent_def plotInputs_def satisfiesConstraints_def split: if_splits)
  then show ?thesis
    using number_control_parses [of ?a typed] number_control_parses [of ?b typed]
    by (simp add: formNumber_def)
qed

lemma property_submit_blocked:
  assumes "parseFloat (typed ''price'') = NaN"
  shows "submitEvent propertyInputs typed = None"
proof -
  let ?el = "\<lparr>inputType = NumberInput, inputName = ''price'', required = True\<rparr>"
  from assms have "controlValue ?el typed = []"
    using number_control_unparsed [of ?el typed] by simp
  then show ?thesis
    by (simp add: submitEvent_def propertyInputs_def satisfiesConstraints_def)
qed

lemma plot_submit_blocked:
  assumes "parseFloat (typed ''price_per_sqft'') = NaN \<or> parseFloat (typed ''total_price'') = NaN"
  shows "submitEvent plotInputs typed = None"
proof -
  let ?a = "\<lparr>inputType = NumberInput, inputName = ''price_per_sqft'', required = True\<rparr>"
  let ?b = "\<lparr>inputType = NumberInput, inputName = ''total_price'', required = True\<rparr>"
  from assms have "controlValue ?a typed = [] \<or> controlValue ?b typed = []"
    using number_control_unparsed [of ?a typed] number_control_unparsed [of ?b typed] by auto
  then show ?thesis
    by (auto simp: submitEvent_def plotInputs_def satisfiesConstraints_def)
qed

text \<open>
  C1. A submission of either form, to create or to edit, in which the text of a
  numeric control (price, price per square foot, total price) does not parse as a
  number is stopped by the form itself: no submit event reaches \<open>handleSubmit\<close>, no
  request is issued and the state is untouched. So whatever is typed, no request
  issued by a submission carries \<open>NaN\<close>.
\<close>

theorem non_numeric_submission_rejected:
  "(parseFloat (typed ''price'') = NaN \<longrightarrow> submitPropertyForm env t st typed = ([], st))
   \<and> (\<forall>c \<in> set (fst (submitPropertyForm env t st typed)). \<not> carriesNaN c)
   \<and> (parseFloat (typed ''price_per_sqft'') = NaN \<or> parseFloat (typed ''total_price'') = NaN
        \<longrightarrow> submitPlotForm penv pst typed = ([], pst))
   \<and> (\<forall>c \<in> set (fst (submitPlotForm penv pst typed)). \<not> carriesNaN c)"
proof (intro conjI impI ballI)
  assume "parseFloat (typed ''price'') = NaN"
  then show "submitPropertyForm env t st typed = ([], st)"
    by (simp add: submitPropertyForm_def property_submit_blocked)
next
  fix c assume c: "c \<in> set (fst (submitPropertyForm env t st typed))"
  show "\<not> carriesNaN c"
  proof (cases "submitEvent propertyInputs typed")
    case None
    with c show ?thesis by (simp add: submitPropertyForm_def)
  next
    case (Some fd)
    then have "formNumber fd ''price'' \<noteq> NaN" by (rule property_submitEvent)
    then have "\<not> (\<exists>c \<in> set (fst (handleSubmit env t st fd)). carriesNaN c)"
      by (simp only: handleSubmit_carriesNaN not_False_eq_True)
    with c Some show ?thesis by (auto simp: submitPropertyForm_def)
  qed
next
  assume "parseFloat (typed ''price_per_sqft'') = NaN \<or> parseFloat (typed ''total_price'') = NaN"
  then show "submitPlotForm penv pst typed = ([], pst)"
    by (simp add: submitPlotForm_def plot_submit_blocked)
next
  fix c assume c: "c \<in> set (fst (submitPlotForm penv pst typed))"
  show "\<not> carriesNaN c"
  proof (cases "submitEvent plotInputs typed")
    case None
    with c show ?thesis by (simp add: submitPlotForm_def)
  next
    case (Some fd)
    then have "formNumber fd ''price_per_sqft'' \<noteq> NaN \<and> formNumber fd ''total_price'' \<noteq> NaN"
      by (rule plot_submitEvent)
    then have "\<not> (\<exists>c \<in> set (fst (handleSubmit_plots penv pst fd)). carriesNaN c)"
      by (simp add: handleSubmit_plots_carriesNaN)
    with c Some show ?thesis by (auto simp: submitPlotForm_def)
  qed
qed

lemma valid_1000000: "validFloatingPointNumber ''1000000''"
  by (simp add: validFloatingPointNumber_def validUnsigned_def isDigit_def)

theorem non_numeric_submission_rejected_witness:
  "parseFloat (typedFrom abcForm ''price'') = NaN
   \<and> submitPropertyForm demoEnv Resale demoEditing (typedFrom abcForm) = ([], demoEditing)
   \<and> parseFloat (typedFrom abcPlotForm ''total_price'') = NaN
   \<and> submitPlotForm demoEnv demoPlots (typedFrom abcPlotForm) = ([], demoPlots)
   \<and> fst (submitPropertyForm demoEnv Resale demoState (typedFrom demoForm)) =
       [Insert ''resale_properties''
          [[(''builder_name'', Str ''Acme''), (''project'', Str ''Skyview''),
            (''location'', Str ''Lakeview''), (''size'', Str ''1200''),
            (''price'', Number (Finite 1000000)), (''images'', Array [])]],
        Select ''resale_properties'' ''*'' ''created_at'' False]
   \<and> \<not> carriesNaN (Insert ''resale_properties''
          [[(''builder_name'', Str ''Acme''), (''project'', Str ''Skyview''),
            (''location'', Str ''Lakeview''), (''size'', Str ''1200''),
            (''price'', Number (Finite 1000000)), (''images'', Array [])]])"
proof -
  have a: "typedFrom abcForm ''price'' = ''abc''" "typedFrom abcPlotForm ''total_price'' = ''abc''"
    by (simp_all add: typedFrom_def abcForm_def abcPlotForm_def)
  have entries: "submitEvent propertyInputs (typedFrom demoForm) = Some demoForm"
    by (simp add: submitEvent_def propertyInputs_def satisfiesConstraints_def controlValue_def
                  typedFrom_def demoForm_def valid_1000000)
  have calls: "fst (handleSubmit demoEnv Resale demoState demoForm) =
       [Insert ''resale_properties''
          [[(''builder_name'', Str ''Acme''), (''project'', Str ''Skyview''),
            (''location'', Str ''Lakeview''), (''size'', Str ''1200''),
            (''price'', Number (Finite 1000000)), (''images'', Array [])]],
        Select ''resale_properties'' ''*'' ''created_at'' False]"
    by (simp add: handleSubmit_calls propertyData_def formNumber_def formGet_def demoForm_def
                  parseFloat_1000000 demoState_def demoEnv_def tableName_def)
  show ?thesis
    using non_numeric_submission_rejected
            [of "typedFrom abcForm" demoEnv Resale demoEditing demoEnv demoPlots]
          non_numeric_submission_rejected
            [of "typedFrom abcPlotForm" demoEnv Resale demoEditing demoEnv demoPlots]
          non_numeric_submission_rejected
            [of "typedFrom demoForm" demoEnv Resale demoState demoEnv demoPlots]
    by (simp add: a parseFloat_abc submitPropertyForm_def entries calls)
qed




subsection \<open>Image addition\<close>

lemma filter_isUpload_uploads:
  "filter isUpload (map (\<lambda>f. UploadImage f n k) files) = map (\<lambda>f. UploadImage f n k) files"
  by (induction files) simp_all

text \<open>
  C5 (as amended). Adding \<open>n\<close> files to the record being edited, whose images are
  \<open>S\<close>, makes exactly \<open>n\<close> upload calls, all before anything else. When all \<open>n\<close>
  uploads succeed they are followed, within the same run of the handler, by exactly
  one update of that record whose images are \<open>S\<close> followed by the \<open>n\<close> URLs
  returned, in the order of the files. When an upload is rejected no update is
  issued. Both managers behave so.
\<close>

theorem image_add_persists_immediately:
  "(editingProperty st = Some e \<longrightarrow>
      length (filter isUpload (fst (handleImageUpload env t st files))) = length files
      \<and> (promiseAll (map (\<lambda>f. uploadImage env f ''properties''
                                (typeString t @ ''/'' @ ownerKey (Some (prop_id e)))) files) = Inr urls
          \<longrightarrow> fst (handleImageUpload env t st files) =
                map (\<lambda>f. UploadImage f ''properties''
                           (typeString t @ ''/'' @ ownerKey (Some (prop_id e)))) files @
                [Update (tableName t) [(''images'', Array (images e @ urls))] (prop_id e)]
              \<and> length urls = length files
              \<and> map Inr urls = map (\<lambda>f. uploadImage env f ''properties''
                                (typeString t @ ''/'' @ ownerKey (Some (prop_id e)))) files)
      \<and> (promiseAll (map (\<lambda>f. uploadImage env f ''properties''
                                (typeString t @ ''/'' @ ownerKey (Some (prop_id e)))) files) = Inl m
          \<longrightarrow> fst (handleImageUpload env t st files) =
                map (\<lambda>f. UploadImage f ''properties''
                           (typeString t @ ''/'' @ ownerKey (Some (prop_id e)))) files))
   \<and> (editingPlot pst = Some pe \<longrightarrow>
      length (filter isUpload (fst (handleImageUpload_plots penv pst files))) = length files
      \<and> (promiseAll (map (\<lambda>f. uploadImage penv f ''plots'' (ownerKey (Some (plot_id pe)))) files)
            = Inr urls
          \<longrightarrow> fst (handleImageUpload_plots penv pst files) =
                map (\<lambda>f. UploadImage f ''plots'' (ownerKey (Some (plot_id pe)))) files @
                [Update ''plots'' [(''images'', Array (plot_images pe @ urls))] (plot_id pe)]
              \<and> length urls = length files
              \<and> map Inr urls
                  = map (\<lambda>f. uploadImage penv f ''plots'' (ownerKey (Some (plot_id pe)))) files)
      \<and> (promiseAll (map (\<lambda>f. uploadImage penv f ''plots'' (ownerKey (Some (plot_id pe)))) files)
            = Inl m
          \<longrightarrow> fst (handleImageUpload_plots penv pst files) =
                map (\<lambda>f. UploadImage f ''plots'' (ownerKey (Some (plot_id pe)))) files))"
proof (intro conjI impI)
  assume e: "editingProperty st = Some e"
  then show "length (filter isUpload (fst (handleImageUpload env t st files))) = length files"
    by (simp add: handleImageUpload_calls filter_isUpload_uploads split: sum.splits)
  {
    assume r: "promiseAll (map (\<lambda>f. uploadImage env f ''properties''
                  (typeString t @ ''/'' @ ownerKey (Some (prop_id e)))) files) = Inr urls"
    with e show "fst (handleImageUpload env t st files) =
                map (\<lambda>f. UploadImage f ''properties''
                           (typeString t @ ''/'' @ ownerKey (Some (prop_id e)))) files @
                [Update (tableName t) [(''images'', Array (images e @ urls))] (prop_id e)]"
      by (simp add: handleImageUpload_calls)
    from r show "length urls = length files"
      using promiseAll_length by fastforce
    from r show "map Inr urls = map (\<lambda>f. uploadImage env f ''properties''
                                (typeString t @ ''/'' @ ownerKey (Some (prop_id e)))) files"
      by (simp add: promiseAll_Inr_iff)
  }
  {
    assume "promiseAll (map (\<lambda>f. uploadImage env f ''properties''
                  (typeString t @ ''/'' @ ownerKey (Some (prop_id e)))) files) = Inl m"
    with e show "fst (handleImageUpload env t st files) =
                map (\<lambda>f. UploadImage f ''properties''
                           (typeString t @ ''/'' @ ownerKey (Some (prop_id e)))) files"
      by (simp add: handleImageUpload_calls)
  }
next
  assume e: "editingPlot pst = Some pe"
  then show "length (filter isUpload (fst (handleImageUpload_plots penv pst files))) = length files"
    by (simp add: handleImageUpload_plots_calls filter_isUpload_uploads split: sum.splits)
  {
    assume r: "promiseAll (map (\<lambda>f. uploadImage penv f ''plots'' (ownerKey (Some (plot_id pe)))) files)
            = Inr urls"
    with e show "fst (handleImageUpload_plots penv pst files) =
                map (\<lambda>f. UploadImage f ''plots'' (ownerKey (Some (plot_id pe)))) files @
                [Update ''plots'' [(''images'', Array (plot_images pe @ urls))] (plot_id pe)]"
      by (simp add: handleImageUpload_plots_calls)
    from r show "length urls = length files"
      using promiseAll_length by fastforce
    from r show "map Inr urls
                  = map (\<lambda>f. uploadImage penv f ''plots'' (ownerKey (Some (plot_id pe)))) files"
      by (simp add: promiseAll_Inr_iff)
  }
  {
    assume "promiseAll (map (\<lambda>f. uploadImage penv f ''plots'' (ownerKey (Some (plot_id pe)))) files)
            = Inl m"
    with e show "fst (handleImageUpload_plots penv pst files) =
                map (\<lambda>f. UploadImage f ''plots'' (ownerKey (Some (plot_id pe)))) files"
      by (simp add: handleImageUpload_plots_calls)
  }
qed

theorem image_add_persists_immediately_witness:
  "editingProperty demoEditing = Some demoProperty
   \<and> promiseAll (map (\<lambda>f. uploadImage (demoEnv :: Property env) f ''properties''
                           (typeString Resale @ ''/'' @ ownerKey (Some (prop_id demoProperty))))
                    [''a.png'', ''b.png'']) = Inr [''cdn/a.png'', ''cdn/b.png'']
   \<and> fst (handleImageUpload demoEnv Resale demoEditing [''a.png'', ''b.png'']) =
       [UploadImage ''a.png'' ''properties'' ''resale/R1'',
        UploadImage ''b.png'' ''properties'' ''resale/R1'',
        Update ''resale_properties''
          [(''images'', Array [''U1'', ''U2'', ''cdn/a.png'', ''cdn/b.png''])] ''R1'']
   \<and> editingPlot demoPlotEditing = Some demoPlot
   \<and> promiseAll (map (\<lambda>f. uploadImage (failingUploadEnv :: Plot env) f ''plots''
                           (ownerKey (Some (plot_id demoPlot))))
                    [''a.png'', ''b.png'']) = Inl ''upload failed''
   \<and> fst (handleImageUpload_plots failingUploadEnv demoPlotEditing [''a.png'', ''b.png'']) =
       [UploadImage ''a.png'' ''plots'' ''P1'', UploadImage ''b.png'' ''plots'' ''P1'']"
  using image_add_persists_immediately
          [of demoEditing demoProperty demoEnv Resale "[''a.png'', ''b.png'']"
              "[''cdn/a.png'', ''cdn/b.png'']" "''upload failed''"
              demoPlotEditing demoPlot failingUploadEnv]
  by (simp add: demoEditing_def demoState_def demoProperty_def demoPlotEditing_def demoPlots_def
                demoPlot_def demoEnv_def failingUploadEnv_def tableName_def ownerKey_def)

text \<open>
  C5 as the spec words it fails: two files added to the record \<open>R1\<close> when the
  upload of the second is rejected make two upload calls and no update.
\<close>

theorem image_add_counterexample:
  "editingProperty demoEditing = Some demoProperty
   \<and> prop_id demoProperty = ''R1''
   \<and> fst (handleImageUpload failingUploadEnv Resale demoEditing [''a.png'', ''b.png'']) =
       [UploadImage ''a.png'' ''properties'' ''resale/R1'',
        UploadImage ''b.png'' ''properties'' ''resale/R1'']"
  by (simp add: handleImageUpload_calls demoEditing_def demoState_def demoProperty_def
                demoEnv_def failingUploadEnv_def ownerKey_def)

subsection \<open>Sequences of image additions against the storage\<close>

















end
